theory Spec2Isabelle
  imports Complex_Main
begin

section \<open>cartesian\_controller\_base.hpp: data\<close>

text \<open>
  The translation unit defines the member functions of the class template
  \<^verbatim>\<open>CartesianControllerBase<HardwareInterface>\<close>. Its declaration (the header
  \<^verbatim>\<open>cartesian_controller_base.h\<close>), ROS, urdf, KDL and the two solvers are not part of
  the file. Their types are type variables and their operations are fields of the record
  \<open>externals\<close>; the members the functions touch are fields of the record \<open>controller\<close>.
  Floating point numbers (\<^verbatim>\<open>double\<close>) are idealised as \<open>real\<close>.
\<close>

subsection \<open>Errors\<close>

text \<open>
  \<open>RuntimeError\<close> is \<^verbatim>\<open>std::runtime_error\<close> with its message. \<open>HandleLookupFailed\<close>
  is the exception \<^verbatim>\<open>hw->getHandle\<close> raises for a name that is not registered.
  \<open>OutOfRange\<close> and \<open>NullPointer\<close> stand for the undefined behaviour of an index past the
  end of a vector and of a dereferenced empty pointer.
\<close>

datatype error =
    RuntimeError string
  | HandleLookupFailed string
  | OutOfRange
  | NullPointer

subsection \<open>Hardware: joint registers and handles\<close>

text \<open>
  A joint of the hardware interface owns a measured position, a measured velocity and a
  command register. A \<^verbatim>\<open>JointHandle\<close> points to the registers of one joint: it is
  modelled by the joint's name, and the registers live in a store, so that two handles of
  the same joint alias.
\<close>

record joint_reg =
  reg_position :: real
  reg_velocity :: real
  reg_command :: real

type_synonym joint_handle = string

record robot_hw =
  hw_names :: "string list"
  hw_regs :: "string \<Rightarrow> joint_reg"

definition getHandle :: "robot_hw \<Rightarrow> string \<Rightarrow> error + joint_handle" where
  "getHandle hw name =
     (if name \<in> set (hw_names hw) then Inr name else Inl (HandleLookupFailed name))"

definition getPosition :: "robot_hw \<Rightarrow> joint_handle \<Rightarrow> real" where
  "getPosition hw h = reg_position (hw_regs hw h)"

definition getVelocity :: "robot_hw \<Rightarrow> joint_handle \<Rightarrow> real" where
  "getVelocity hw h = reg_velocity (hw_regs hw h)"

definition getCommand :: "robot_hw \<Rightarrow> joint_handle \<Rightarrow> real" where
  "getCommand hw h = reg_command (hw_regs hw h)"

definition setCommand :: "robot_hw \<Rightarrow> joint_handle \<Rightarrow> real \<Rightarrow> robot_hw" where
  "setCommand hw h v = hw\<lparr>hw_regs := (hw_regs hw)(h := (hw_regs hw h)\<lparr>reg_command := v\<rparr>)\<rparr>"

subsection \<open>Vectors, frames and wrenches\<close>

type_synonym vec3 = "real \<times> real \<times> real"

text \<open>A rotation matrix by rows, as \<^verbatim>\<open>KDL::Rotation\<close> stores it.\<close>

type_synonym rotation = "vec3 \<times> vec3 \<times> vec3"

text \<open>\<^verbatim>\<open>KDL::Frame\<close>: the rotation \<open>M\<close> and the translation \<open>p\<close>.\<close>

type_synonym frame = "rotation \<times> vec3"

text \<open>\<^verbatim>\<open>KDL::Wrench\<close>: force and torque.\<close>

type_synonym wrench = "vec3 \<times> vec3"

text \<open>\<^verbatim>\<open>ctrl::Vector6D\<close>, by its six entries in order.\<close>

type_synonym vector6D = "real list"

text \<open>\<^verbatim>\<open>geometry_msgs::WrenchStamped\<close>: the frame of the header and the wrench.\<close>

record wrench_msg =
  msg_force :: vec3
  msg_torque :: vec3

record wrench_stamped =
  header_frame_id :: string
  wrench_of :: wrench_msg

text \<open>
  The simulated joint motion (\<^verbatim>\<open>m_simulated_joint_motion\<close>): the source reads its
  members \<^verbatim>\<open>positions\<close> and \<^verbatim>\<open>velocities\<close>, both indexed by joint.
\<close>

record joint_motion =
  positions :: "real list"
  velocities :: "real list"

subsection \<open>The parameter server\<close>

datatype param_value =
    StringParam string
  | StringListParam "string list"
  | OtherParam

record node_handle =
  getNamespace :: string
  params :: "string \<Rightarrow> param_value option"

text \<open>
  \<^verbatim>\<open>nh.getParam(key, std::string&)\<close> and \<^verbatim>\<open>nh.getParam(key, std::vector<std::string>&)\<close>:
  \<open>None\<close> is the return value \<^verbatim>\<open>false\<close> (no such key, or a value of another type), which
  leaves the output argument as it was.
\<close>

definition getParam_string :: "node_handle \<Rightarrow> string \<Rightarrow> string option" where
  "getParam_string nh key =
     (case params nh key of Some (StringParam v) \<Rightarrow> Some v | _ \<Rightarrow> None)"

definition getParam_strings :: "node_handle \<Rightarrow> string \<Rightarrow> string list option" where
  "getParam_strings nh key =
     (case params nh key of Some (StringListParam v) \<Rightarrow> Some v | _ \<Rightarrow> None)"

subsection \<open>The controller and its collaborators\<close>

text \<open>
  The template argument: the file specialises \<^verbatim>\<open>writeJointControlCmds\<close> for these two
  interfaces and for no other.
\<close>

datatype hardware_interface = PositionJointInterface | VelocityJointInterface

text \<open>
  The members of a controller. \<open>hardware_interface_of\<close> is the template argument the
  instance was built with. \<open>'d\<close> is the forward dynamics solver, \<open>'k\<close> the forward
  kinematics solver (held by a pointer that is empty until \<^verbatim>\<open>init\<close> resets it) and
  \<open>'p\<close> the spatial PID controller.
\<close>

record ('d, 'k, 'p) controller =
  hardware_interface_of :: hardware_interface
  m_robot_base_link :: string
  m_end_effector_link :: string
  m_joint_names :: "string list"
  m_joint_handles :: "joint_handle list"
  m_forward_dynamics_solver :: 'd
  m_forward_kinematics_solver :: "'k option"
  m_spatial_controller :: 'p
  m_cartesian_input :: vector6D
  m_simulated_joint_motion :: joint_motion

text \<open>
  The operations of the libraries the file calls. \<open>'m\<close> is \<^verbatim>\<open>urdf::Model\<close>, \<open>'t\<close> is
  \<^verbatim>\<open>KDL::Tree\<close>, \<open>'c\<close> is \<^verbatim>\<open>KDL::Chain\<close>. An operation that returns \<^verbatim>\<open>false\<close>
  (or a negative code) and leaves its output argument alone returns \<open>None\<close>.
\<close>

record ('m, 't, 'c, 'd, 'k, 'p) externals =
  urdf_Model :: 'm
  urdf_initString :: "string \<Rightarrow> 'm option"
  treeFromUrdfModel :: "'m \<Rightarrow> 't option"
  tree_getChain :: "'t \<Rightarrow> string \<Rightarrow> string \<Rightarrow> 'c option"
  chain_segment_names :: "'c \<Rightarrow> string list"
  kdl_Tree :: 't
  tree_addChain :: "'t \<Rightarrow> 'c \<Rightarrow> string \<Rightarrow> 't"
  fds_init :: "'d \<Rightarrow> 'c \<Rightarrow> 'd"
  fds_setStartState :: "'d \<Rightarrow> joint_handle list \<Rightarrow> robot_hw \<Rightarrow> 'd"
  fds_getPositions :: "'d \<Rightarrow> real list"
  fds_getJointControlCmds :: "'d \<Rightarrow> real \<Rightarrow> vector6D \<Rightarrow> joint_motion \<times> 'd"
  treeFkSolverPos_recursive :: "'t \<Rightarrow> 'k"
  fk_JntToCart :: "'k \<Rightarrow> real list \<Rightarrow> string \<Rightarrow> frame option"
  pid_init :: "'p \<Rightarrow> node_handle \<Rightarrow> 'p"
  pid_call :: "'p \<Rightarrow> vector6D \<Rightarrow> real \<Rightarrow> vector6D \<times> 'p"

section \<open>The member functions\<close>

subsection \<open>writeJointControlCmds\<close>

text \<open>
  The loop of both specialisations (lines 133--136 and 144--147): handle \<open>i\<close> receives
  entry \<open>i\<close> of the vector. The vector is indexed with no check; an index past its end
  is the error \<open>OutOfRange\<close>.
\<close>

function setCommands_from :: "nat \<Rightarrow> joint_handle list \<Rightarrow> real list \<Rightarrow> robot_hw \<Rightarrow> error + robot_hw" where
  "setCommands_from i hs vals hw =
     (if i < length hs then
        (if i < length vals
         then setCommands_from (Suc i) hs vals (setCommand hw (hs ! i) (vals ! i))
         else Inl OutOfRange)
      else Inr hw)"
  by pat_completeness auto
termination
  by (relation "measure (\<lambda>(i, hs, vals, hw). length hs - i)") auto

declare setCommands_from.simps [simp del]

definition writeJointControlCmds ::
  "('d, 'k, 'p) controller \<times> robot_hw \<Rightarrow> error + (('d, 'k, 'p) controller \<times> robot_hw)" where
  "writeJointControlCmds w =
     (case w of (s, hw) \<Rightarrow>
        (case hardware_interface_of s of
           PositionJointInterface \<Rightarrow>
             (case setCommands_from 0 (m_joint_handles s) (positions (m_simulated_joint_motion s)) hw of
                Inl e \<Rightarrow> Inl e
              | Inr hw' \<Rightarrow> Inr (s, hw'))
         | VelocityJointInterface \<Rightarrow>
             (case setCommands_from 0 (m_joint_handles s) (velocities (m_simulated_joint_motion s)) hw of
                Inl e \<Rightarrow> Inl e
              | Inr hw' \<Rightarrow> Inr (s, hw'))))"

subsection \<open>init\<close>

text \<open>The messages of lines 47, 51, 55, 61, 65--66, 72--74 and 82--83.\<close>

definition quoted :: "string \<Rightarrow> string" where
  "quoted x = CHR 0x27 # x @ [CHR 0x27]"

definition msg_robot_description :: string where
  "msg_robot_description =
     ''Failed to load '' @ quoted ''/robot_description'' @ '' from parameter server''"

definition msg_param :: "node_handle \<Rightarrow> string \<Rightarrow> string" where
  "msg_param nh key = ''Failed to load '' @ getNamespace nh @ key @ '' from parameter server''"

definition msg_urdf :: string where
  "msg_urdf = ''Failed to parse urdf model from '' @ quoted ''robot_description''"

definition msg_tree :: string where
  "msg_tree = ''Failed to parse KDL tree from urdf model''"

definition msg_chain :: string where
  "msg_chain =
     ''Failed to parse robot chain from urdf model. '' @
     ''Are you sure that both your '' @ quoted ''robot_base_link'' @ '' and '' @
     quoted ''end_effector_link'' @ '' exist?''"

text \<open>
  The loop of lines 89--92: the handle of each joint name is appended to
  \<^verbatim>\<open>m_joint_handles\<close>. When \<^verbatim>\<open>getHandle\<close> throws, the handles pushed so far stay in
  the vector and the exception leaves \<^verbatim>\<open>init\<close>.
\<close>

function getHandles_from ::
  "nat \<Rightarrow> string list \<Rightarrow> robot_hw \<Rightarrow> joint_handle list \<Rightarrow> error option \<times> joint_handle list" where
  "getHandles_from i names hw hs =
     (if i < length names then
        (case getHandle hw (names ! i) of
           Inl e \<Rightarrow> (Some e, hs)
         | Inr h \<Rightarrow> getHandles_from (Suc i) names hw (hs @ [h]))
      else (None, hs))"
  by pat_completeness auto
termination
  by (relation "measure (\<lambda>(i, names, hw, hs). length names - i)") auto

declare getHandles_from.simps [simp del]

text \<open>
  \<^verbatim>\<open>init\<close> (lines 35--106). The result is the value returned or the exception thrown,
  the controller as the call leaves it (an exception does not undo the assignments before
  it) and the messages written with \<^verbatim>\<open>ROS_ERROR\<close> and \<^verbatim>\<open>ROS_ERROR_STREAM\<close>, in order.
  \<^verbatim>\<open>robot_chain.segments[0]\<close> on a chain with no segment is \<open>OutOfRange\<close>.
\<close>

definition init ::
  "('m, 't, 'c, 'd, 'k, 'p) externals \<Rightarrow> robot_hw \<Rightarrow> node_handle \<Rightarrow> ('d, 'k, 'p) controller
     \<Rightarrow> (error + bool) \<times> ('d, 'k, 'p) controller \<times> string list" where
  "init E hw nh s =
     (let (robot_description, log1) =
            (case getParam_string nh ''/robot_description'' of
               None \<Rightarrow> ([], [msg_robot_description])
             | Some d \<Rightarrow> (d, []));
          (s2, log2) =
            (case getParam_string nh ''robot_base_link'' of
               None \<Rightarrow> (s, log1 @ [msg_param nh ''/robot_base_link''])
             | Some b \<Rightarrow> (s\<lparr>m_robot_base_link := b\<rparr>, log1));
          (s3, log3) =
            (case getParam_string nh ''end_effector_link'' of
               None \<Rightarrow> (s2, log2 @ [msg_param nh ''/end_effector_link''])
             | Some e \<Rightarrow> (s2\<lparr>m_end_effector_link := e\<rparr>, log2));
          (robot_model, log4) =
            (case urdf_initString E robot_description of
               None \<Rightarrow> (urdf_Model E, log3 @ [msg_urdf])
             | Some m \<Rightarrow> (m, log3))
      in
        (case treeFromUrdfModel E robot_model of
           None \<Rightarrow> (Inl (RuntimeError msg_tree), s3, log4 @ [msg_tree])
         | Some robot_tree \<Rightarrow>
        (case tree_getChain E robot_tree (m_robot_base_link s3) (m_end_effector_link s3) of
           None \<Rightarrow> (Inl (RuntimeError msg_chain), s3, log4 @ [msg_chain])
         | Some robot_chain \<Rightarrow>
        (case getParam_strings nh ''joints'' of
           None \<Rightarrow>
             (Inl (RuntimeError (msg_param nh ''/joints'')), s3, log4 @ [msg_param nh ''/joints''])
         | Some js \<Rightarrow>
        (let s4 = s3\<lparr>m_joint_names := js\<rparr>;
             (thrown, hs) = getHandles_from 0 (m_joint_names s4) hw (m_joint_handles s4);
             s5 = s4\<lparr>m_joint_handles := hs\<rparr>
         in
        (case thrown of
           Some e \<Rightarrow> (Inl e, s5, log4)
         | None \<Rightarrow>
        (let s6 = s5\<lparr>m_forward_dynamics_solver :=
                        fds_init E (m_forward_dynamics_solver s5) robot_chain\<rparr>
         in
        (case chain_segment_names E robot_chain of
           [] \<Rightarrow> (Inl OutOfRange, s6, log4)
         | name0 # rest \<Rightarrow>
        (let tmp = tree_addChain E (kdl_Tree E) robot_chain name0;
             s7 = s6\<lparr>m_forward_kinematics_solver := Some (treeFkSolverPos_recursive E tmp)\<rparr>;
             s8 = s7\<lparr>m_spatial_controller := pid_init E (m_spatial_controller s7) nh\<rparr>
         in (Inr True, s8, log4))))))))))"

subsection \<open>starting, stopping, update\<close>

text \<open>
  The three hooks of the hosting framework (lines 108--126). \<open>'a\<close> is \<^verbatim>\<open>ros::Time\<close>;
  a period (\<^verbatim>\<open>ros::Duration\<close>) is a number of seconds. The bodies of \<^verbatim>\<open>stopping\<close> and
  \<^verbatim>\<open>update\<close> are empty.
\<close>

definition starting ::
  "('m, 't, 'c, 'd, 'k, 'p) externals \<Rightarrow> 'a \<Rightarrow> ('d, 'k, 'p) controller \<times> robot_hw
     \<Rightarrow> ('d, 'k, 'p) controller \<times> robot_hw" where
  "starting E time w =
     (case w of (s, hw) \<Rightarrow>
        (s\<lparr>m_forward_dynamics_solver :=
             fds_setStartState E (m_forward_dynamics_solver s) (m_joint_handles s) hw\<rparr>, hw))"

definition stopping ::
  "'a \<Rightarrow> ('d, 'k, 'p) controller \<times> robot_hw \<Rightarrow> ('d, 'k, 'p) controller \<times> robot_hw" where
  "stopping time w = w"

definition update ::
  "'a \<Rightarrow> real \<Rightarrow> ('d, 'k, 'p) controller \<times> robot_hw \<Rightarrow> ('d, 'k, 'p) controller \<times> robot_hw" where
  "update time period w = w"

subsection \<open>computeJointControlCmds\<close>

text \<open>
  Lines 150--160: the spatial controller is called on the error and the period and its
  output is stored in \<^verbatim>\<open>m_cartesian_input\<close>; the forward dynamics solver is called on
  the period and that input and its output is stored in \<^verbatim>\<open>m_simulated_joint_motion\<close>.
  Both calls may change the object they are called on.
\<close>

definition computeJointControlCmds ::
  "('m, 't, 'c, 'd, 'k, 'p) externals \<Rightarrow> vector6D \<Rightarrow> real \<Rightarrow> ('d, 'k, 'p) controller \<times> robot_hw
     \<Rightarrow> ('d, 'k, 'p) controller \<times> robot_hw" where
  "computeJointControlCmds E err period w =
     (case w of (s, hw) \<Rightarrow>
        (let (v, pid') = pid_call E (m_spatial_controller s) err period;
             s1 = s\<lparr>m_spatial_controller := pid', m_cartesian_input := v\<rparr>;
             (motion, fds') =
               fds_getJointControlCmds E (m_forward_dynamics_solver s1) period (m_cartesian_input s1)
         in (s1\<lparr>m_forward_dynamics_solver := fds', m_simulated_joint_motion := motion\<rparr>, hw)))"

subsection \<open>displayInBaseLink\<close>

text \<open>
  The function works on KDL's vectors, rotations, frames and wrenches, and KDL is not in
  the file. The operations below are modelled from the spec, over exact reals.
\<close>

text \<open>Modelled from the spec: the sum and the negation of vectors, by components.\<close>

fun vec_add :: "vec3 \<Rightarrow> vec3 \<Rightarrow> vec3" where
  "vec_add (a1, a2, a3) (b1, b2, b3) = (a1 + b1, a2 + b2, a3 + b3)"

fun vec_neg :: "vec3 \<Rightarrow> vec3" where
  "vec_neg (a1, a2, a3) = (- a1, - a2, - a3)"

text \<open>Modelled from the spec: the dot product and the cross product \<open>a \<times> b\<close>.\<close>

fun dot :: "vec3 \<Rightarrow> vec3 \<Rightarrow> real" where
  "dot (a1, a2, a3) (b1, b2, b3) = a1 * b1 + a2 * b2 + a3 * b3"

fun cross :: "vec3 \<Rightarrow> vec3 \<Rightarrow> vec3" where
  "cross (a1, a2, a3) (b1, b2, b3) = (a2 * b3 - a3 * b2, a3 * b1 - a1 * b3, a1 * b2 - a2 * b1)"

text \<open>Modelled from the spec: the product \<open>R \<cdot> v\<close> of a rotation matrix and a vector.\<close>

fun rot_mul :: "rotation \<Rightarrow> vec3 \<Rightarrow> vec3" where
  "rot_mul (r1, r2, r3) v = (dot r1 v, dot r2 v, dot r3 v)"

text \<open>
  Modelled from the spec: the inverse of a rotation (\<^verbatim>\<open>KDL::Rotation::Inverse\<close>) is its
  transpose.
\<close>

fun rot_inverse :: "rotation \<Rightarrow> rotation" where
  "rot_inverse ((a11, a12, a13), (a21, a22, a23), (a31, a32, a33)) =
     ((a11, a21, a31), (a12, a22, a32), (a13, a23, a33))"

text \<open>
  Modelled from the spec: a default constructed \<^verbatim>\<open>KDL::Frame\<close> is the identity, with
  the unit matrix and no translation.
\<close>

definition rot_identity :: rotation where
  "rot_identity = ((1, 0, 0), (0, 1, 0), (0, 0, 1))"

definition frame_identity :: frame where
  "frame_identity = (rot_identity, (0, 0, 0))"

text \<open>
  Modelled from the spec: the product of a frame and a wrench (\<^verbatim>\<open>KDL::Frame::operator*\<close>
  on a \<^verbatim>\<open>KDL::Wrench\<close>), which the spec gives for the frame \<open>(R, p)\<close> and the wrench
  \<open>(f, t)\<close> as \<open>f' = R \<cdot> f\<close>, \<open>t' = R \<cdot> t + p \<times> f'\<close>.
\<close>

fun frame_mul_wrench :: "frame \<Rightarrow> wrench \<Rightarrow> wrench" where
  "frame_mul_wrench (M, p) (f, t) =
     (let f' = rot_mul M f in (f', vec_add (rot_mul M t) (cross p f')))"

text \<open>
  Modelled from the spec: the inverse transform (\<^verbatim>\<open>KDL::Frame::Inverse\<close>) of the frame
  \<open>(R, p)\<close> is \<open>(R\<^sup>T, - R\<^sup>T p)\<close>.
\<close>

fun frame_inverse :: "frame \<Rightarrow> frame" where
  "frame_inverse (M, p) = (rot_inverse M, vec_neg (rot_mul (rot_inverse M) p))"

text \<open>
  Modelled from the spec: entry \<open>i\<close> of a wrench (\<^verbatim>\<open>KDL::Wrench::operator()\<close>): entries
  0 to 2 are the force and entries 3 to 5 the torque.
\<close>

fun vec_at :: "vec3 \<Rightarrow> nat \<Rightarrow> real" where
  "vec_at (a1, a2, a3) i = (if i = 0 then a1 else if i = 1 then a2 else a3)"

fun wrench_at :: "wrench \<Rightarrow> nat \<Rightarrow> real" where
  "wrench_at (f, t) i = (if i < 3 then vec_at f i else vec_at t (i - 3))"

text \<open>
  Modelled from the spec: the rotation part of a frame transform is a rotation matrix:
  its rows are orthonormal and its determinant is 1.
\<close>

fun det :: "rotation \<Rightarrow> real" where
  "det (r1, r2, r3) = dot r1 (cross r2 r3)"

fun is_rotation :: "rotation \<Rightarrow> bool" where
  "is_rotation (r1, r2, r3) =
     (dot r1 r1 = 1 \<and> dot r2 r2 = 1 \<and> dot r3 r3 = 1 \<and>
      dot r1 r2 = 0 \<and> dot r1 r3 = 0 \<and> dot r2 r3 = 0 \<and> det (r1, r2, r3) = 1)"

text \<open>
  Modelled from the spec: \<^verbatim>\<open>tf::wrenchMsgToKDL\<close> copies the force and the torque of the
  message into a \<^verbatim>\<open>KDL::Wrench\<close>.
\<close>

definition wrenchMsgToKDL :: "wrench_msg \<Rightarrow> wrench" where
  "wrenchMsgToKDL m = (msg_force m, msg_torque m)"

text \<open>
  Lines 162--187. The frame is default constructed and \<^verbatim>\<open>JntToCart\<close> overwrites it
  when it succeeds; its return code is not read. The joint positions passed to it are
  those of \<^verbatim>\<open>m_forward_dynamics_solver.getPositions()\<close>. The solver is reached through
  its pointer: an empty pointer is \<open>NullPointer\<close>.
\<close>

definition displayInBaseLink ::
  "('m, 't, 'c, 'd, 'k, 'p) externals \<Rightarrow> wrench_stamped \<Rightarrow> string
     \<Rightarrow> ('d, 'k, 'p) controller \<times> robot_hw \<Rightarrow> error + vector6D" where
  "displayInBaseLink E wrench from w =
     (case w of (s, hw) \<Rightarrow>
        (let wrench_kdl = wrenchMsgToKDL (wrench_of wrench) in
           (case m_forward_kinematics_solver s of
              None \<Rightarrow> Inl NullPointer
            | Some fk \<Rightarrow>
                (let transform_kdl =
                       (case fk_JntToCart E fk (fds_getPositions E (m_forward_dynamics_solver s)) from of
                          None \<Rightarrow> frame_identity
                        | Some T \<Rightarrow> T);
                     wrench_kdl' = frame_mul_wrench transform_kdl wrench_kdl
                 in Inr (map (wrench_at wrench_kdl') [0..<6])))))"

section \<open>Notions used in the statements\<close>

subsection \<open>The locals of init\<close>

text \<open>
  The values \<^verbatim>\<open>init\<close> works with after its first four checks (lines 45--62), which
  only log: the description (empty when the key is missing), the frame names (the
  members as they were when the keys are missing), the model (the default model when the
  description does not parse) and the messages logged so far. \<open>init_robot_chain\<close> is the
  chain of line 70, when the tree of line 63 and the chain can be built.
\<close>

definition init_robot_description :: "node_handle \<Rightarrow> string" where
  "init_robot_description nh =
     (case getParam_string nh ''/robot_description'' of None \<Rightarrow> [] | Some d \<Rightarrow> d)"

definition init_base_link :: "node_handle \<Rightarrow> ('d, 'k, 'p) controller \<Rightarrow> string" where
  "init_base_link nh s =
     (case getParam_string nh ''robot_base_link'' of None \<Rightarrow> m_robot_base_link s | Some b \<Rightarrow> b)"

definition init_end_effector_link :: "node_handle \<Rightarrow> ('d, 'k, 'p) controller \<Rightarrow> string" where
  "init_end_effector_link nh s =
     (case getParam_string nh ''end_effector_link'' of None \<Rightarrow> m_end_effector_link s | Some e \<Rightarrow> e)"

definition init_robot_model :: "('m, 't, 'c, 'd, 'k, 'p) externals \<Rightarrow> node_handle \<Rightarrow> 'm" where
  "init_robot_model E nh =
     (case urdf_initString E (init_robot_description nh) of None \<Rightarrow> urdf_Model E | Some m \<Rightarrow> m)"

definition init_robot_chain ::
  "('m, 't, 'c, 'd, 'k, 'p) externals \<Rightarrow> node_handle \<Rightarrow> ('d, 'k, 'p) controller \<Rightarrow> 'c option" where
  "init_robot_chain E nh s =
     (case treeFromUrdfModel E (init_robot_model E nh) of
        None \<Rightarrow> None
      | Some robot_tree \<Rightarrow>
          tree_getChain E robot_tree (init_base_link nh s) (init_end_effector_link nh s))"

definition init_messages :: "('m, 't, 'c, 'd, 'k, 'p) externals \<Rightarrow> node_handle \<Rightarrow> string list" where
  "init_messages E nh =
     (case getParam_string nh ''/robot_description'' of None \<Rightarrow> [msg_robot_description] | Some d \<Rightarrow> []) @
     (case getParam_string nh ''robot_base_link'' of
        None \<Rightarrow> [msg_param nh ''/robot_base_link''] | Some b \<Rightarrow> []) @
     (case getParam_string nh ''end_effector_link'' of
        None \<Rightarrow> [msg_param nh ''/end_effector_link''] | Some e \<Rightarrow> []) @
     (case urdf_initString E (init_robot_description nh) of None \<Rightarrow> [msg_urdf] | Some m \<Rightarrow> [])"

subsection \<open>Entries of a vector\<close>

fun vec_entries :: "vec3 \<Rightarrow> real list" where
  "vec_entries (a1, a2, a3) = [a1, a2, a3]"

subsection \<open>Frames on points\<close>

text \<open>
  Modelled from the spec: a frame \<open>(R, p)\<close> places the point \<open>v\<close> of its own coordinates
  at \<open>R v + p\<close> (rotation \<open>R\<close>, translation \<open>p\<close>).
\<close>

fun frame_mul_vec :: "frame \<Rightarrow> vec3 \<Rightarrow> vec3" where
  "frame_mul_vec (M, p) v = vec_add (rot_mul M v) p"

subsection \<open>A concrete robot\<close>

text \<open>
  One instance of the collaborators, used to run the functions: a description is any
  non-empty text, the tree has the links \<open>base_link\<close>, \<open>link1\<close> and \<open>tool0\<close> in a row, the
  dynamics solver keeps the simulated positions and moves every joint with the first
  entry of the Cartesian input, the kinematics solver places a known segment at the first
  joint position along \<open>x\<close>, turned by a quarter turn about \<open>z\<close>, and the PID controller is
  a proportional gain.
\<close>

definition ex_externals ::
  "(string, string list, string list, real list, string list, real) externals" where
  "ex_externals =
     \<lparr>urdf_Model = [],
      urdf_initString = (\<lambda>xml. if xml = [] then None else Some xml),
      treeFromUrdfModel = (\<lambda>m. if m = [] then None else Some [''base_link'', ''link1'', ''tool0'']),
      tree_getChain = (\<lambda>t b e. if b = ''base_link'' \<and> e = ''tool0'' \<and> b \<in> set t \<and> e \<in> set t
                                 then Some [''link1'', ''tool0''] else None),
      chain_segment_names = (\<lambda>c. c),
      kdl_Tree = [''root''],
      tree_addChain = (\<lambda>t c hook. t @ c),
      fds_init = (\<lambda>d c. d),
      fds_setStartState = (\<lambda>d hs hw. map (getPosition hw) hs),
      fds_getPositions = (\<lambda>d. d),
      fds_getJointControlCmds =
        (\<lambda>d period v.
           (\<lparr>positions = map (\<lambda>q. q + v ! 0 * period) d, velocities = map (\<lambda>q. v ! 0) d\<rparr>,
            map (\<lambda>q. q + v ! 0 * period) d)),
      treeFkSolverPos_recursive = (\<lambda>t. t),
      fk_JntToCart =
        (\<lambda>k q seg. if seg \<in> set k then Some (((0, - 1, 0), (1, 0, 0), (0, 0, 1)), (q ! 0, 0, 0))
                     else None),
      pid_init = (\<lambda>p nh. p),
      pid_call = (\<lambda>p e period. (map (\<lambda>x. p * x) e, p))\<rparr>"

definition ex_hw :: robot_hw where
  "ex_hw =
     \<lparr>hw_names = [''joint1'', ''joint2''],
      hw_regs = (\<lambda>n. \<lparr>reg_position = 5, reg_velocity = 0, reg_command = 0\<rparr>)\<rparr>"

text \<open>A parameter server with no key \<open>robot_base_link\<close>.\<close>

definition ex_nh :: node_handle where
  "ex_nh =
     \<lparr>getNamespace = ''/my_controller'',
      params = [''/robot_description'' \<mapsto> StringParam ''<robot/>'',
                ''end_effector_link'' \<mapsto> StringParam ''tool0'',
                ''joints'' \<mapsto> StringListParam [''joint1'', ''joint2'']]\<rparr>"

text \<open>A controller as its constructor leaves it: its frame names are empty.\<close>

definition ex_constructed :: "(real list, string list, real) controller" where
  "ex_constructed =
     \<lparr>hardware_interface_of = PositionJointInterface,
      m_robot_base_link = [],
      m_end_effector_link = [],
      m_joint_names = [],
      m_joint_handles = [],
      m_forward_dynamics_solver = [],
      m_forward_kinematics_solver = None,
      m_spatial_controller = 1,
      m_cartesian_input = [0, 0, 0, 0, 0, 0],
      m_simulated_joint_motion = \<lparr>positions = [], velocities = []\<rparr>\<rparr>"

text \<open>
  The same collaborators for a robot description whose base link has the empty name: the
  tree has the links with the names \<open>[]\<close>, \<open>link1\<close> and \<open>tool0\<close> in a row.
\<close>

definition ex_unnamed_base ::
  "(string, string list, string list, real list, string list, real) externals" where
  "ex_unnamed_base =
     ex_externals
       \<lparr>treeFromUrdfModel := (\<lambda>m. if m = [] then None else Some [[], ''link1'', ''tool0'']),
        tree_getChain := (\<lambda>t b e. if b = [] \<and> e = ''tool0'' \<and> b \<in> set t \<and> e \<in> set t
                                    then Some [''link1'', ''tool0''] else None)\<rparr>"

text \<open>A controller before \<^verbatim>\<open>init\<close> whose base link member holds a link name.\<close>

definition ex_controller :: "(real list, string list, real) controller" where
  "ex_controller =
     \<lparr>hardware_interface_of = PositionJointInterface,
      m_robot_base_link = ''base_link'',
      m_end_effector_link = [],
      m_joint_names = [],
      m_joint_handles = [],
      m_forward_dynamics_solver = [],
      m_forward_kinematics_solver = None,
      m_spatial_controller = 1,
      m_cartesian_input = [0, 0, 0, 0, 0, 0],
      m_simulated_joint_motion = \<lparr>positions = [], velocities = []\<rparr>\<rparr>"

text \<open>A controller in use: two joints, simulated at positions 1 and 2.\<close>

definition ex_running :: "(real list, string list, real) controller" where
  "ex_running =
     \<lparr>hardware_interface_of = PositionJointInterface,
      m_robot_base_link = ''base_link'',
      m_end_effector_link = ''tool0'',
      m_joint_names = [''joint1'', ''joint2''],
      m_joint_handles = [''joint1'', ''joint2''],
      m_forward_dynamics_solver = [1, 2],
      m_forward_kinematics_solver = Some [''root'', ''link1'', ''tool0''],
      m_spatial_controller = 1,
      m_cartesian_input = [0, 0, 0, 0, 0, 0],
      m_simulated_joint_motion = \<lparr>positions = [1, 2], velocities = [3, 4]\<rparr>\<rparr>"

definition ex_wrench :: wrench_stamped where
  "ex_wrench =
     \<lparr>header_frame_id = ''tool0'',
      wrench_of = \<lparr>msg_force = (1, 2, 3), msg_torque = (4, 5, 6)\<rparr>\<rparr>"

section \<open>Lemmas\<close>

subsection \<open>The command loop\<close>

lemma setCommands_from_total:
  "length hs \<le> length vals \<Longrightarrow>
   setCommands_from i hs vals hw =
     Inr (foldl (\<lambda>h (j, v). setCommand h j v) hw (drop i (zip hs vals)))"
proof (induction i hs vals hw rule: setCommands_from.induct)
  case (1 i hs vals hw)
  show ?case
  proof (cases "i < length hs")
    case True
    with "1.prems" have iv: "i < length vals" by simp
    from True iv have d: "drop i (zip hs vals) = (hs ! i, vals ! i) # drop (Suc i) (zip hs vals)"
      by (simp add: Cons_nth_drop_Suc [symmetric])
    show ?thesis
      using "1.IH" [OF True iv "1.prems"] True iv d
      by (subst setCommands_from.simps) simp
  next
    case False
    then show ?thesis
      by (subst setCommands_from.simps) simp
  qed
qed

lemma setCommands_from_short:
  "length vals < length hs \<Longrightarrow> i \<le> length vals \<Longrightarrow>
   setCommands_from i hs vals hw = Inl OutOfRange"
proof (induction i hs vals hw rule: setCommands_from.induct)
  case (1 i hs vals hw)
  show ?case
  proof (cases "i < length vals")
    case True
    with "1.prems" have ih: "i < length hs" by simp
    show ?thesis
      using "1.IH" [OF ih True "1.prems"(1)] True ih
      by (subst setCommands_from.simps) simp
  next
    case False
    with "1.prems" show ?thesis
      by (subst setCommands_from.simps) simp
  qed
qed

lemma setCommands_from_0:
  "setCommands_from 0 hs vals hw =
     (if length hs \<le> length vals
      then Inr (foldl (\<lambda>h (j, v). setCommand h j v) hw (zip hs vals))
      else Inl OutOfRange)"
  using setCommands_from_total [of hs vals 0 hw] setCommands_from_short [of vals hs 0 hw]
  by simp

lemma foldl_setCommand_other:
  "h \<notin> fst ` set ws \<Longrightarrow>
   hw_regs (foldl (\<lambda>h (j, v). setCommand h j v) hw ws) h = hw_regs hw h"
  by (induction ws arbitrary: hw) (auto simp: setCommand_def)

lemma foldl_setCommand_distinct:
  "distinct (map fst ws) \<Longrightarrow> k < length ws \<Longrightarrow>
   getCommand (foldl (\<lambda>h (j, v). setCommand h j v) hw ws) (fst (ws ! k)) = snd (ws ! k)"
proof (induction ws arbitrary: hw k)
  case Nil
  then show ?case by simp
next
  case (Cons a ws)
  show ?case
  proof (cases k)
    case 0
    obtain j v where a: "a = (j, v)" by (cases a)
    from Cons.prems a have "j \<notin> fst ` set ws" by auto
    then have "hw_regs (foldl (\<lambda>h (j, v). setCommand h j v) (setCommand hw j v) ws) j
               = hw_regs (setCommand hw j v) j"
      by (rule foldl_setCommand_other)
    then show ?thesis
      using 0 a by (simp add: getCommand_def) (simp add: setCommand_def)
  next
    case (Suc m)
    with Cons show ?thesis by (cases a) simp
  qed
qed

lemma commands_after_writing:
  assumes "distinct hs" and "length hs \<le> length vals" and "i < length hs"
  shows "getCommand (foldl (\<lambda>h (j, v). setCommand h j v) hw (zip hs vals)) (hs ! i) = vals ! i"
proof -
  have m: "map fst (zip hs vals) = hs"
    using assms(2) by (simp add: map_fst_zip_take)
  have "getCommand (foldl (\<lambda>h (j, v). setCommand h j v) hw (zip hs vals)) (fst (zip hs vals ! i))
        = snd (zip hs vals ! i)"
    using assms by (intro foldl_setCommand_distinct) (simp_all add: m)
  then show ?thesis using assms by simp
qed

lemma writeJointControlCmds_eq:
  "writeJointControlCmds (s, hw) =
     (case setCommands_from 0 (m_joint_handles s)
             (case hardware_interface_of s of
                PositionJointInterface \<Rightarrow> positions (m_simulated_joint_motion s)
              | VelocityJointInterface \<Rightarrow> velocities (m_simulated_joint_motion s)) hw of
        Inl e \<Rightarrow> Inl e
      | Inr hw' \<Rightarrow> Inr (s, hw'))"
  by (simp add: writeJointControlCmds_def split: hardware_interface.split)

subsection \<open>init by its stages\<close>

lemma init_unfold:
  "init E hw nh s =
     (let s3 = s\<lparr>m_robot_base_link := init_base_link nh s,
                 m_end_effector_link := init_end_effector_link nh s\<rparr>;
          log4 = init_messages E nh
      in
        (case treeFromUrdfModel E (init_robot_model E nh) of
           None \<Rightarrow> (Inl (RuntimeError msg_tree), s3, log4 @ [msg_tree])
         | Some robot_tree \<Rightarrow>
        (case tree_getChain E robot_tree (init_base_link nh s) (init_end_effector_link nh s) of
           None \<Rightarrow> (Inl (RuntimeError msg_chain), s3, log4 @ [msg_chain])
         | Some robot_chain \<Rightarrow>
        (case getParam_strings nh ''joints'' of
           None \<Rightarrow>
             (Inl (RuntimeError (msg_param nh ''/joints'')), s3, log4 @ [msg_param nh ''/joints''])
         | Some js \<Rightarrow>
        (case getHandles_from 0 js hw (m_joint_handles s) of
           (Some e, hs) \<Rightarrow> (Inl e, s3\<lparr>m_joint_names := js, m_joint_handles := hs\<rparr>, log4)
         | (None, hs) \<Rightarrow>
        (case chain_segment_names E robot_chain of
           [] \<Rightarrow>
             (Inl OutOfRange,
              s3\<lparr>m_joint_names := js, m_joint_handles := hs,
                 m_forward_dynamics_solver := fds_init E (m_forward_dynamics_solver s) robot_chain\<rparr>,
              log4)
         | name0 # rest \<Rightarrow>
             (Inr True,
              s3\<lparr>m_joint_names := js, m_joint_handles := hs,
                 m_forward_dynamics_solver := fds_init E (m_forward_dynamics_solver s) robot_chain,
                 m_forward_kinematics_solver :=
                   Some (treeFkSolverPos_recursive E (tree_addChain E (kdl_Tree E) robot_chain name0)),
                 m_spatial_controller := pid_init E (m_spatial_controller s) nh\<rparr>,
              log4)))))))"
proof -
  define thrown where "thrown js = fst (getHandles_from 0 js hw (m_joint_handles s))" for js
  define hs where "hs js = snd (getHandles_from 0 js hw (m_joint_handles s))" for js
  have g: "\<And>js. getHandles_from 0 js hw (m_joint_handles s) = (thrown js, hs js)"
    by (simp add: thrown_def hs_def)
  show ?thesis
    unfolding init_def init_base_link_def init_end_effector_link_def init_messages_def
      init_robot_model_def init_robot_description_def
    by (cases "getParam_string nh ''/robot_description''";
        cases "getParam_string nh ''robot_base_link''";
        cases "getParam_string nh ''end_effector_link''";
        cases "urdf_initString E (case getParam_string nh ''/robot_description'' of None \<Rightarrow> [] | Some d \<Rightarrow> d)";
        simp add: Let_def g split: option.split list.split)
qed

lemma init_returns_true_iff:
  "fst (init E hw nh s) = Inr True \<longleftrightarrow>
     (\<exists>chain js hs name0 rest.
        init_robot_chain E nh s = Some chain \<and>
        getParam_strings nh ''joints'' = Some js \<and>
        getHandles_from 0 js hw (m_joint_handles s) = (None, hs) \<and>
        chain_segment_names E chain = name0 # rest)"
proof (cases "init_robot_chain E nh s")
  case None
  then show ?thesis
    by (auto simp: init_unfold init_robot_chain_def Let_def split: option.splits)
next
  case (Some chain)
  then obtain tree where t: "treeFromUrdfModel E (init_robot_model E nh) = Some tree"
    and c: "tree_getChain E tree (init_base_link nh s) (init_end_effector_link nh s) = Some chain"
    by (auto simp: init_robot_chain_def split: option.splits)
  show ?thesis
  proof (cases "getParam_strings nh ''joints''")
    case None
    then show ?thesis by (simp add: init_unfold Let_def t c)
  next
    case js: (Some js)
    obtain thrown hs where g: "getHandles_from 0 js hw (m_joint_handles s) = (thrown, hs)"
      by (cases "getHandles_from 0 js hw (m_joint_handles s)")
    show ?thesis
      by (cases thrown; cases "chain_segment_names E chain")
         (simp_all add: init_unfold Let_def t c js g Some)
  qed
qed


lemma init_messages_logged: "set (init_messages E nh) \<subseteq> set (snd (snd (init E hw nh s)))"
  by (auto simp: init_unfold Let_def split: option.split prod.split list.split)

lemma init_frame_members:
  "m_robot_base_link (fst (snd (init E hw nh s))) = init_base_link nh s \<and>
   m_end_effector_link (fst (snd (init E hw nh s))) = init_end_effector_link nh s"
  by (simp add: init_unfold Let_def split: option.split prod.split list.split)

lemma init_without_chain:
  assumes "init_robot_chain E nh s = None"
  shows "init E hw nh s =
           (let msg = (if treeFromUrdfModel E (init_robot_model E nh) = None
                       then msg_tree else msg_chain)
            in (Inl (RuntimeError msg),
                s\<lparr>m_robot_base_link := init_base_link nh s,
                  m_end_effector_link := init_end_effector_link nh s\<rparr>,
                init_messages E nh @ [msg]))"
  using assms
  by (auto simp: init_unfold init_robot_chain_def Let_def split: option.splits)

lemma init_without_joints:
  assumes "init_robot_chain E nh s = Some chain" and "getParam_strings nh ''joints'' = None"
  shows "init E hw nh s =
           (Inl (RuntimeError (msg_param nh ''/joints'')),
            s\<lparr>m_robot_base_link := init_base_link nh s,
              m_end_effector_link := init_end_effector_link nh s\<rparr>,
            init_messages E nh @ [msg_param nh ''/joints''])"
  using assms
  by (auto simp: init_unfold init_robot_chain_def Let_def split: option.splits)

text \<open>The six ways \<^verbatim>\<open>init\<close> ends, by the step of lines 63--105 that decides.\<close>

lemma init_robot_chain_Some:
  assumes "init_robot_chain E nh s = Some chain"
  obtains tree where "treeFromUrdfModel E (init_robot_model E nh) = Some tree"
    and "tree_getChain E tree (init_base_link nh s) (init_end_effector_link nh s) = Some chain"
  using assms by (auto simp: init_robot_chain_def split: option.splits)

lemma init_case_tree:
  assumes "treeFromUrdfModel E (init_robot_model E nh) = None"
  shows "init E hw nh s =
           (Inl (RuntimeError msg_tree),
            s\<lparr>m_robot_base_link := init_base_link nh s,
              m_end_effector_link := init_end_effector_link nh s\<rparr>,
            init_messages E nh @ [msg_tree])"
  using assms by (simp add: init_unfold Let_def)

lemma init_case_chain:
  assumes "treeFromUrdfModel E (init_robot_model E nh) = Some tree"
    and "tree_getChain E tree (init_base_link nh s) (init_end_effector_link nh s) = None"
  shows "init E hw nh s =
           (Inl (RuntimeError msg_chain),
            s\<lparr>m_robot_base_link := init_base_link nh s,
              m_end_effector_link := init_end_effector_link nh s\<rparr>,
            init_messages E nh @ [msg_chain])"
  using assms by (simp add: init_unfold Let_def)

lemma init_case_handles:
  assumes "init_robot_chain E nh s = Some chain"
    and "getParam_strings nh ''joints'' = Some js"
    and "getHandles_from 0 js hw (m_joint_handles s) = (Some e, hs)"
  shows "init E hw nh s =
           (Inl e,
            s\<lparr>m_robot_base_link := init_base_link nh s,
              m_end_effector_link := init_end_effector_link nh s,
              m_joint_names := js, m_joint_handles := hs\<rparr>,
            init_messages E nh)"
proof -
  from assms(1) obtain tree where "treeFromUrdfModel E (init_robot_model E nh) = Some tree"
    and "tree_getChain E tree (init_base_link nh s) (init_end_effector_link nh s) = Some chain"
    by (rule init_robot_chain_Some)
  with assms(2,3) show ?thesis by (simp add: init_unfold Let_def)
qed

lemma init_case_segments:
  assumes "init_robot_chain E nh s = Some chain"
    and "getParam_strings nh ''joints'' = Some js"
    and "getHandles_from 0 js hw (m_joint_handles s) = (None, hs)"
    and "chain_segment_names E chain = []"
  shows "init E hw nh s =
           (Inl OutOfRange,
            s\<lparr>m_robot_base_link := init_base_link nh s,
              m_end_effector_link := init_end_effector_link nh s,
              m_joint_names := js, m_joint_handles := hs,
              m_forward_dynamics_solver := fds_init E (m_forward_dynamics_solver s) chain\<rparr>,
            init_messages E nh)"
proof -
  from assms(1) obtain tree where "treeFromUrdfModel E (init_robot_model E nh) = Some tree"
    and "tree_getChain E tree (init_base_link nh s) (init_end_effector_link nh s) = Some chain"
    by (rule init_robot_chain_Some)
  with assms(2,3,4) show ?thesis by (simp add: init_unfold Let_def)
qed

lemma init_case_success:
  assumes "init_robot_chain E nh s = Some chain"
    and "getParam_strings nh ''joints'' = Some js"
    and "getHandles_from 0 js hw (m_joint_handles s) = (None, hs)"
    and "chain_segment_names E chain = name0 # rest"
  shows "init E hw nh s =
           (Inr True,
            s\<lparr>m_robot_base_link := init_base_link nh s,
              m_end_effector_link := init_end_effector_link nh s,
              m_joint_names := js, m_joint_handles := hs,
              m_forward_dynamics_solver := fds_init E (m_forward_dynamics_solver s) chain,
              m_forward_kinematics_solver :=
                Some (treeFkSolverPos_recursive E (tree_addChain E (kdl_Tree E) chain name0)),
              m_spatial_controller := pid_init E (m_spatial_controller s) nh\<rparr>,
            init_messages E nh)"
proof -
  from assms(1) obtain tree where "treeFromUrdfModel E (init_robot_model E nh) = Some tree"
    and "tree_getChain E tree (init_base_link nh s) (init_end_effector_link nh s) = Some chain"
    by (rule init_robot_chain_Some)
  with assms(2,3,4) show ?thesis by (simp add: init_unfold Let_def)
qed

lemma init_base_message:
  assumes "getParam_string nh ''robot_base_link'' = None"
  shows "msg_param nh ''/robot_base_link'' \<in> set (snd (snd (init E hw nh s))) \<and>
         m_robot_base_link (fst (snd (init E hw nh s))) = m_robot_base_link s"
  using assms init_messages_logged [of E nh hw s] init_frame_members [of E hw nh s]
  by (auto simp: init_messages_def init_base_link_def)

lemma init_end_effector_message:
  assumes "getParam_string nh ''end_effector_link'' = None"
  shows "msg_param nh ''/end_effector_link'' \<in> set (snd (snd (init E hw nh s))) \<and>
         m_end_effector_link (fst (snd (init E hw nh s))) = m_end_effector_link s"
  using assms init_messages_logged [of E nh hw s] init_frame_members [of E hw nh s]
  by (auto simp: init_messages_def init_end_effector_link_def)

subsection \<open>init on the concrete robot\<close>

lemma ex_getHandles:
  "getHandles_from 0 [''joint1'', ''joint2''] ex_hw [] = (None, [''joint1'', ''joint2''])"
  by (simp add: getHandles_from.simps getHandle_def ex_hw_def)

lemma ex_params:
  "getParam_string ex_nh ''/robot_description'' = Some ''<robot/>''"
  "getParam_string ex_nh ''robot_base_link'' = None"
  "getParam_string ex_nh ''end_effector_link'' = Some ''tool0''"
  "getParam_strings ex_nh ''joints'' = Some [''joint1'', ''joint2'']"
  by (simp_all add: getParam_string_def getParam_strings_def ex_nh_def)

lemma ex_base_message:
  "msg_param ex_nh ''/robot_base_link''
     = ''Failed to load /my_controller/robot_base_link from parameter server''"
  by (simp add: msg_param_def ex_nh_def)

lemma ex_unnamed_messages:
  "init_messages ex_unnamed_base ex_nh
     = [''Failed to load /my_controller/robot_base_link from parameter server'']"
  by (simp add: init_messages_def init_robot_description_def ex_params ex_base_message
      ex_unnamed_base_def ex_externals_def)

lemma ex_messages:
  "init_messages ex_externals ex_nh
     = [''Failed to load /my_controller/robot_base_link from parameter server'']"
  by (simp add: init_messages_def init_robot_description_def ex_params ex_base_message
      ex_externals_def)

lemma ex_unnamed_chain:
  "init_robot_chain ex_unnamed_base ex_nh ex_constructed = Some [''link1'', ''tool0'']"
  by (simp add: init_robot_chain_def init_robot_model_def init_robot_description_def
      init_base_link_def init_end_effector_link_def ex_params ex_unnamed_base_def
      ex_externals_def ex_constructed_def)

lemma ex_constructed_frames:
  "init_base_link ex_nh ex_constructed = []"
  "init_end_effector_link ex_nh ex_constructed = ''tool0''"
  by (simp_all add: init_base_link_def init_end_effector_link_def ex_params ex_constructed_def)

lemma ex_tree:
  "treeFromUrdfModel ex_externals (init_robot_model ex_externals ex_nh)
     = Some [''base_link'', ''link1'', ''tool0'']"
  by (simp add: init_robot_model_def init_robot_description_def ex_params ex_externals_def)

lemma ex_no_chain:
  "tree_getChain ex_externals [''base_link'', ''link1'', ''tool0'']
     (init_base_link ex_nh ex_constructed) (init_end_effector_link ex_nh ex_constructed) = None"
  by (simp add: ex_constructed_frames ex_externals_def)

lemma ex_unnamed_parts:
  "chain_segment_names ex_unnamed_base [''link1'', ''tool0''] = [''link1'', ''tool0'']"
  "fds_init ex_unnamed_base (m_forward_dynamics_solver ex_constructed) [''link1'', ''tool0''] = []"
  "treeFkSolverPos_recursive ex_unnamed_base
     (tree_addChain ex_unnamed_base (kdl_Tree ex_unnamed_base) [''link1'', ''tool0''] ''link1'')
     = [''root'', ''link1'', ''tool0'']"
  "pid_init ex_unnamed_base (m_spatial_controller ex_constructed) ex_nh = 1"
  "m_joint_handles ex_constructed = []"
  by (simp_all add: ex_unnamed_base_def ex_externals_def ex_constructed_def)

lemma ex_initialised:
  "ex_constructed
     \<lparr>m_robot_base_link := [], m_end_effector_link := ''tool0'',
      m_joint_names := [''joint1'', ''joint2''], m_joint_handles := [''joint1'', ''joint2''],
      m_forward_dynamics_solver := [],
      m_forward_kinematics_solver := Some [''root'', ''link1'', ''tool0''],
      m_spatial_controller := 1\<rparr>
   = ex_constructed
       \<lparr>m_end_effector_link := ''tool0'',
        m_joint_names := [''joint1'', ''joint2''], m_joint_handles := [''joint1'', ''joint2''],
        m_forward_kinematics_solver := Some [''root'', ''link1'', ''tool0'']\<rparr>"
  by (simp add: ex_constructed_def)


subsection \<open>Vectors and rotations\<close>

lemma rot_mul_vec_add: "rot_mul R (vec_add a b) = vec_add (rot_mul R a) (rot_mul R b)"
  by (cases R rule: prod_cases3, cases a rule: prod_cases3, cases b rule: prod_cases3)
     (auto simp: algebra_simps split: prod.splits)

lemma rot_mul_vec_neg: "rot_mul R (vec_neg a) = vec_neg (rot_mul R a)"
  by (cases R rule: prod_cases3, cases a rule: prod_cases3)
     (auto simp: algebra_simps split: prod.splits)

lemma cross_vec_neg: "cross (vec_neg a) b = vec_neg (cross a b)"
  by (cases a rule: prod_cases3, cases b rule: prod_cases3) (simp add: algebra_simps)

lemma cross_zero: "cross (0, 0, 0) b = (0, 0, 0)"
  by (cases b rule: prod_cases3) simp

lemma vec_add_zero: "vec_add a (0, 0, 0) = a"
  by (cases a rule: prod_cases3) simp

lemma vec_add_neg_cancel: "vec_add (vec_add t (vec_neg c)) c = t"
  by (cases t rule: prod_cases3, cases c rule: prod_cases3) simp

lemma vec_add_cancel_neg: "vec_add (vec_add t c) (vec_neg c) = t"
  by (cases t rule: prod_cases3, cases c rule: prod_cases3) simp

lemma vec_sub_zero: "vec_add a (vec_neg b) = (0, 0, 0) \<Longrightarrow> a = b"
  by (cases a rule: prod_cases3, cases b rule: prod_cases3) simp

lemma vec_sub_self: "vec_add a (vec_neg a) = (0, 0, 0)"
  by (cases a rule: prod_cases3) simp

lemma dot_commute: "dot a b = dot b a"
  by (cases a rule: prod_cases3, cases b rule: prod_cases3) (simp add: algebra_simps)

text \<open>Cramer's rule: a matrix of determinant 1 sends only the zero vector to zero.\<close>

lemma rot_mul_zero:
  assumes d: "det R = 1" and z: "rot_mul R v = (0, 0, 0)"
  shows "v = (0, 0, 0)"
proof -
  obtain r1 r2 r3 where R0: "R = (r1, r2, r3)" by (cases R rule: prod_cases3)
  obtain a11 a12 a13 where r1: "r1 = (a11, a12, a13)" by (cases r1 rule: prod_cases3)
  obtain a21 a22 a23 where r2: "r2 = (a21, a22, a23)" by (cases r2 rule: prod_cases3)
  obtain a31 a32 a33 where r3: "r3 = (a31, a32, a33)" by (cases r3 rule: prod_cases3)
  note R = R0 [unfolded r1 r2 r3]
  obtain x y z where v: "v = (x, y, z)" by (cases v rule: prod_cases3)
  define D where "D = a11 * (a22 * a33 - a23 * a32) + a12 * (a23 * a31 - a21 * a33)
                      + a13 * (a21 * a32 - a22 * a31)"
  define u1 where "u1 = a11 * x + a12 * y + a13 * z"
  define u2 where "u2 = a21 * x + a22 * y + a23 * z"
  define u3 where "u3 = a31 * x + a32 * y + a33 * z"
  have D1: "D = 1" using d by (simp add: R D_def)
  have u: "u1 = 0" "u2 = 0" "u3 = 0" using z by (simp_all add: R v u1_def u2_def u3_def)
  have "D * x = (a22 * a33 - a23 * a32) * u1 + (a13 * a32 - a12 * a33) * u2
                + (a12 * a23 - a13 * a22) * u3"
    unfolding D_def u1_def u2_def u3_def by (simp add: algebra_simps)
  moreover have "D * y = (a23 * a31 - a21 * a33) * u1 + (a11 * a33 - a13 * a31) * u2
                + (a13 * a21 - a11 * a23) * u3"
    unfolding D_def u1_def u2_def u3_def by (simp add: algebra_simps)
  moreover have "D * z = (a21 * a32 - a22 * a31) * u1 + (a12 * a31 - a11 * a32) * u2
                + (a11 * a22 - a12 * a21) * u3"
    unfolding D_def u1_def u2_def u3_def by (simp add: algebra_simps)
  ultimately show ?thesis using D1 u by (simp add: v)
qed

lemma rot_mul_inj:
  assumes "det R = 1" and "rot_mul R a = rot_mul R b"
  shows "a = b"
proof -
  have "rot_mul R (vec_add a (vec_neg b)) = (0, 0, 0)"
    using assms(2) by (simp add: rot_mul_vec_add rot_mul_vec_neg vec_sub_self)
  then show ?thesis using assms(1) rot_mul_zero vec_sub_zero by blast
qed

lemma rot_mul_transpose:
  "rot_mul (r1, r2, r3) (rot_mul (rot_inverse (r1, r2, r3)) (x, y, z)) =
     (dot r1 r1 * x + dot r1 r2 * y + dot r1 r3 * z,
      dot r1 r2 * x + dot r2 r2 * y + dot r2 r3 * z,
      dot r1 r3 * x + dot r2 r3 * y + dot r3 r3 * z)"
  by (cases r1 rule: prod_cases3, cases r2 rule: prod_cases3, cases r3 rule: prod_cases3)
     (simp add: algebra_simps)

lemma rot_mul_cross_rows:
  "rot_mul (r1, r2, r3) (cross r2 r3) = (dot r1 (cross r2 r3), 0, 0) \<and>
   rot_mul (r1, r2, r3) (cross r3 r1) = (0, dot r1 (cross r2 r3), 0) \<and>
   rot_mul (r1, r2, r3) (cross r1 r2) = (0, 0, dot r1 (cross r2 r3))"
  by (cases r1 rule: prod_cases3, cases r2 rule: prod_cases3, cases r3 rule: prod_cases3)
     (simp add: algebra_simps)

text \<open>The cross product of two images is the cofactor matrix on the cross product.\<close>

lemma cross_rot_mul:
  "cross (rot_mul (r1, r2, r3) a) (rot_mul (r1, r2, r3) b) =
     rot_mul (cross r2 r3, cross r3 r1, cross r1 r2) (cross a b)"
proof -
  obtain a11 a12 a13 where r1: "r1 = (a11, a12, a13)" by (cases r1 rule: prod_cases3)
  obtain a21 a22 a23 where r2: "r2 = (a21, a22, a23)" by (cases r2 rule: prod_cases3)
  obtain a31 a32 a33 where r3: "r3 = (a31, a32, a33)" by (cases r3 rule: prod_cases3)
  obtain x y z where a: "a = (x, y, z)" by (cases a rule: prod_cases3)
  obtain u v w where b: "b = (u, v, w)" by (cases b rule: prod_cases3)
  show ?thesis
    unfolding r1 r2 r3 a b
    by simp algebra
qed

lemma rot_rot_inverse:
  assumes "is_rotation R"
  shows "rot_mul R (rot_mul (rot_inverse R) v) = v"
proof -
  obtain r1 r2 r3 where R: "R = (r1, r2, r3)" by (cases R rule: prod_cases3)
  obtain x y z where v: "v = (x, y, z)" by (cases v rule: prod_cases3)
  show ?thesis using assms unfolding R v rot_mul_transpose by simp
qed

lemma is_rotation_det: "is_rotation R \<Longrightarrow> det R = 1"
  by (cases R rule: prod_cases3) simp

lemma rot_inverse_rot:
  assumes "is_rotation R"
  shows "rot_mul (rot_inverse R) (rot_mul R v) = v"
  by (rule rot_mul_inj [of R]) (simp_all add: assms is_rotation_det rot_rot_inverse)

lemma rotation_cofactors:
  assumes "is_rotation (r1, r2, r3)"
  shows "cross r2 r3 = r1 \<and> cross r3 r1 = r2 \<and> cross r1 r2 = r3"
proof -
  have d: "det (r1, r2, r3) = 1" using assms by simp
  then have d': "dot r1 (cross r2 r3) = 1" by simp
  have o: "dot r1 r1 = 1" "dot r2 r2 = 1" "dot r3 r3 = 1"
    "dot r1 r2 = 0" "dot r1 r3 = 0" "dot r2 r3 = 0"
    using assms by simp_all
  have o': "dot r2 r1 = 0" "dot r3 r1 = 0" "dot r3 r2 = 0"
    using o dot_commute by simp_all
  have "rot_mul (r1, r2, r3) (cross r2 r3) = rot_mul (r1, r2, r3) r1"
    using rot_mul_cross_rows [of r1 r2 r3] by (simp add: d' o o')
  then have 1: "cross r2 r3 = r1" by (rule rot_mul_inj [OF d])
  have "rot_mul (r1, r2, r3) (cross r3 r1) = rot_mul (r1, r2, r3) r2"
    using rot_mul_cross_rows [of r1 r2 r3] by (simp add: d' o o')
  then have 2: "cross r3 r1 = r2" by (rule rot_mul_inj [OF d])
  have "rot_mul (r1, r2, r3) (cross r1 r2) = rot_mul (r1, r2, r3) r3"
    using rot_mul_cross_rows [of r1 r2 r3] by (simp add: d' o o')
  then have 3: "cross r1 r2 = r3" by (rule rot_mul_inj [OF d])
  from 1 2 3 show ?thesis by simp
qed

lemma rot_mul_cross:
  assumes "is_rotation R"
  shows "rot_mul R (cross a b) = cross (rot_mul R a) (rot_mul R b)"
proof -
  obtain r1 r2 r3 where R: "R = (r1, r2, r3)" by (cases R rule: prod_cases3)
  show ?thesis
    using rotation_cofactors [of r1 r2 r3] assms unfolding R cross_rot_mul by simp
qed

lemma wrench_there_and_back:
  assumes "is_rotation R"
  shows "frame_mul_wrench (frame_inverse (R, p)) (frame_mul_wrench (R, p) (f, t)) = (f, t)"
proof -
  have d: "det R = 1" using assms by (rule is_rotation_det)
  have "rot_mul R (cross (rot_mul (rot_inverse R) p) f) = cross p (rot_mul R f)"
    by (simp add: rot_mul_cross [OF assms] rot_rot_inverse [OF assms])
  then have "rot_mul R (cross (rot_mul (rot_inverse R) p) f)
             = rot_mul R (rot_mul (rot_inverse R) (cross p (rot_mul R f)))"
    by (simp add: rot_rot_inverse [OF assms])
  then have c: "cross (rot_mul (rot_inverse R) p) f
                = rot_mul (rot_inverse R) (cross p (rot_mul R f))"
    by (rule rot_mul_inj [OF d])
  show ?thesis
    by (simp add: Let_def rot_inverse_rot [OF assms] rot_mul_vec_add cross_vec_neg c
        vec_add_cancel_neg)
qed

lemma wrench_back_and_there:
  assumes "is_rotation R"
  shows "frame_mul_wrench (R, p) (frame_mul_wrench (frame_inverse (R, p)) (f, t)) = (f, t)"
  by (simp add: Let_def rot_rot_inverse [OF assms] rot_mul_vec_add cross_vec_neg
      rot_mul_cross [OF assms] rot_mul_vec_neg vec_add_neg_cancel)

text \<open>The inverse frame undoes the frame on points, so it is the inverse transform.\<close>

lemma frame_inverse_on_points:
  assumes "is_rotation R"
  shows "frame_mul_vec (frame_inverse (R, p)) (frame_mul_vec (R, p) v) = v"
  by (simp add: rot_mul_vec_add rot_inverse_rot [OF assms] vec_add_cancel_neg)

subsection \<open>displayInBaseLink by its steps\<close>

lemma upt_6: "[0..<6] = [0, 1, 2, 3, 4, 5]"
  by (simp add: upt_rec)

lemma map_wrench_at: "map (wrench_at (f, t)) [0..<6] = vec_entries f @ vec_entries t"
  by (cases f rule: prod_cases3, cases t rule: prod_cases3) (simp add: upt_6)

lemma displayInBaseLink_eq:
  "displayInBaseLink E wr frm (s, hw) =
     (case m_forward_kinematics_solver s of
        None \<Rightarrow> Inl NullPointer
      | Some fk \<Rightarrow>
          Inr (map (wrench_at
                 (frame_mul_wrench
                    (case fk_JntToCart E fk (fds_getPositions E (m_forward_dynamics_solver s)) frm of
                       None \<Rightarrow> frame_identity
                     | Some T \<Rightarrow> T)
                    (wrenchMsgToKDL (wrench_of wr)))) [0..<6]))"
  by (simp add: displayInBaseLink_def Let_def split: option.split)

lemma displayInBaseLink_frame:
  assumes "m_forward_kinematics_solver s = Some fk"
    and "fk_JntToCart E fk (fds_getPositions E (m_forward_dynamics_solver s)) frm = Some (R, p)"
  shows "displayInBaseLink E wr frm (s, hw) =
           Inr (vec_entries (rot_mul R (msg_force (wrench_of wr))) @
                vec_entries (vec_add (rot_mul R (msg_torque (wrench_of wr)))
                               (cross p (rot_mul R (msg_force (wrench_of wr))))))"
  using assms
  by (simp add: displayInBaseLink_eq wrenchMsgToKDL_def Let_def map_wrench_at
      del: upt_Suc)

section \<open>Claims\<close>

text \<open>
  C1, as the code has it. \<^verbatim>\<open>update\<close> is an empty hook: it changes neither the
  controller nor the hardware, whatever the state. The computation of a cycle is in two
  other members, which a caller has to drive: \<^verbatim>\<open>computeJointControlCmds\<close> calls the
  spatial PID controller on the error and the period and stores its output in
  \<^verbatim>\<open>m_cartesian_input\<close>, then calls the forward dynamics solver on the period and that
  input and stores its output in \<^verbatim>\<open>m_simulated_joint_motion\<close>; \<^verbatim>\<open>writeJointControlCmds\<close>
  hands the simulated motion to the command loop of the actuation mode.
\<close>

theorem update_is_empty_hook:
  "update time period w = w \<and>
   computeJointControlCmds E err period (s, hw) =
     (s\<lparr>m_spatial_controller := snd (pid_call E (m_spatial_controller s) err period),
        m_cartesian_input := fst (pid_call E (m_spatial_controller s) err period),
        m_forward_dynamics_solver :=
          snd (fds_getJointControlCmds E (m_forward_dynamics_solver s) period
                 (fst (pid_call E (m_spatial_controller s) err period))),
        m_simulated_joint_motion :=
          fst (fds_getJointControlCmds E (m_forward_dynamics_solver s) period
                 (fst (pid_call E (m_spatial_controller s) err period)))\<rparr>, hw) \<and>
   writeJointControlCmds (s, hw) =
     (case setCommands_from 0 (m_joint_handles s)
             (case hardware_interface_of s of
                PositionJointInterface \<Rightarrow> positions (m_simulated_joint_motion s)
              | VelocityJointInterface \<Rightarrow> velocities (m_simulated_joint_motion s)) hw of
        Inl e \<Rightarrow> Inl e
      | Inr hw' \<Rightarrow> Inr (s, hw'))"
proof -
  have u: "update time period w = w"
    by (simp add: update_def)
  have c: "computeJointControlCmds E err period (s, hw) =
     (s\<lparr>m_spatial_controller := snd (pid_call E (m_spatial_controller s) err period),
        m_cartesian_input := fst (pid_call E (m_spatial_controller s) err period),
        m_forward_dynamics_solver :=
          snd (fds_getJointControlCmds E (m_forward_dynamics_solver s) period
                 (fst (pid_call E (m_spatial_controller s) err period))),
        m_simulated_joint_motion :=
          fst (fds_getJointControlCmds E (m_forward_dynamics_solver s) period
                 (fst (pid_call E (m_spatial_controller s) err period)))\<rparr>, hw)"
    by (simp add: computeJointControlCmds_def Let_def split: prod.split)
  from u c writeJointControlCmds_eq [of s hw] show ?thesis by (simp only:)
qed

text \<open>
  C1 as stated fails: on the concrete robot, with the error \<open>[0.1, 0, 0, 0, 0, 0]\<close> and
  the period \<open>0.01\<close>, the two members together command the positions \<open>1.001\<close> and
  \<open>2.001\<close>, and \<^verbatim>\<open>update\<close> leaves the commands at \<open>0\<close>.
\<close>

theorem update_orchestration_counterexample:
  "update (0::nat) (1 / 100) (ex_running, ex_hw) = (ex_running, ex_hw) \<and>
   writeJointControlCmds
     (computeJointControlCmds ex_externals [1 / 10, 0, 0, 0, 0, 0] (1 / 100) (ex_running, ex_hw)) =
     Inr (ex_running
            \<lparr>m_forward_dynamics_solver := [1001 / 1000, 2001 / 1000],
             m_cartesian_input := [1 / 10, 0, 0, 0, 0, 0],
             m_simulated_joint_motion :=
               \<lparr>positions = [1001 / 1000, 2001 / 1000], velocities = [1 / 10, 1 / 10]\<rparr>\<rparr>,
          setCommand (setCommand ex_hw ''joint1'' (1001 / 1000)) ''joint2'' (2001 / 1000)) \<and>
   getCommand (snd (update (0::nat) (1 / 100) (ex_running, ex_hw))) ''joint1'' = 0 \<and>
   getCommand (setCommand (setCommand ex_hw ''joint1'' (1001 / 1000)) ''joint2'' (2001 / 1000))
     ''joint1'' = 1001 / 1000 \<and>
   Inr (update (0::nat) (1 / 100) (ex_running, ex_hw)) \<noteq>
     writeJointControlCmds
       (computeJointControlCmds ex_externals [1 / 10, 0, 0, 0, 0, 0] (1 / 100) (ex_running, ex_hw))"
proof -
  have u: "update (0::nat) (1 / 100) (ex_running, ex_hw) = (ex_running, ex_hw)"
    by (simp add: update_def)
  have c: "computeJointControlCmds ex_externals [1 / 10, 0, 0, 0, 0, 0] (1 / 100) (ex_running, ex_hw)
           = (ex_running
                \<lparr>m_forward_dynamics_solver := [1001 / 1000, 2001 / 1000],
                 m_cartesian_input := [1 / 10, 0, 0, 0, 0, 0],
                 m_simulated_joint_motion :=
                   \<lparr>positions = [1001 / 1000, 2001 / 1000], velocities = [1 / 10, 1 / 10]\<rparr>\<rparr>,
              ex_hw)"
    by (simp add: computeJointControlCmds_def ex_externals_def ex_running_def Let_def)
  have w: "writeJointControlCmds
     (computeJointControlCmds ex_externals [1 / 10, 0, 0, 0, 0, 0] (1 / 100) (ex_running, ex_hw)) =
     Inr (ex_running
            \<lparr>m_forward_dynamics_solver := [1001 / 1000, 2001 / 1000],
             m_cartesian_input := [1 / 10, 0, 0, 0, 0, 0],
             m_simulated_joint_motion :=
               \<lparr>positions = [1001 / 1000, 2001 / 1000], velocities = [1 / 10, 1 / 10]\<rparr>\<rparr>,
          setCommand (setCommand ex_hw ''joint1'' (1001 / 1000)) ''joint2'' (2001 / 1000))"
    unfolding c
    by (simp add: writeJointControlCmds_def ex_running_def setCommands_from.simps)
  have g0: "getCommand ex_hw ''joint1'' = 0"
    by (simp add: getCommand_def ex_hw_def)
  have g1: "getCommand (setCommand (setCommand ex_hw ''joint1'' (1001 / 1000)) ''joint2'' (2001 / 1000))
              ''joint1'' = 1001 / 1000"
    by (simp add: getCommand_def setCommand_def)
  have n: "ex_hw \<noteq> setCommand (setCommand ex_hw ''joint1'' (1001 / 1000)) ''joint2'' (2001 / 1000)"
    using g0 g1 by auto
  show ?thesis
    unfolding w u using g0 g1 n by simp
qed




text \<open>
  C3. When no chain can be built between the base frame and the end-effector frame, or
  the key \<open>joints\<close> is missing, \<^verbatim>\<open>init\<close> throws \<^verbatim>\<open>std::runtime_error\<close>, with the message
  it logs last, and goes no further: the joint names and handles and the two solvers and
  the PID controller are as they were.
\<close>

theorem init_throws_without_chain_or_joints:
  assumes "init_robot_chain E nh s = None \<or> getParam_strings nh ''joints'' = None"
  shows "(\<exists>msg. fst (init E hw nh s) = Inl (RuntimeError msg) \<and>
            snd (snd (init E hw nh s)) = init_messages E nh @ [msg]) \<and>
         m_joint_names (fst (snd (init E hw nh s))) = m_joint_names s \<and>
         m_joint_handles (fst (snd (init E hw nh s))) = m_joint_handles s \<and>
         m_forward_dynamics_solver (fst (snd (init E hw nh s))) = m_forward_dynamics_solver s \<and>
         m_forward_kinematics_solver (fst (snd (init E hw nh s))) = m_forward_kinematics_solver s \<and>
         m_spatial_controller (fst (snd (init E hw nh s))) = m_spatial_controller s"
proof (cases "init_robot_chain E nh s")
  case None
  show ?thesis
    by (simp add: init_without_chain [OF None] Let_def)
next
  case (Some chain)
  with assms have "getParam_strings nh ''joints'' = None" by simp
  from init_without_joints [OF Some this, of hw] show ?thesis
    by simp
qed

theorem init_throws_without_chain_or_joints_witness:
  "init_robot_chain ex_externals ex_nh (ex_controller\<lparr>m_robot_base_link := ''world''\<rparr>) = None \<and>
   (\<exists>msg. fst (init ex_externals ex_hw ex_nh (ex_controller\<lparr>m_robot_base_link := ''world''\<rparr>))
            = Inl (RuntimeError msg)) \<and>
   m_joint_handles (fst (snd (init ex_externals ex_hw ex_nh (ex_controller\<lparr>m_robot_base_link := ''world''\<rparr>))))
     = [] \<and>
   m_forward_kinematics_solver
     (fst (snd (init ex_externals ex_hw ex_nh (ex_controller\<lparr>m_robot_base_link := ''world''\<rparr>))))
     = None"
proof -
  let ?s = "ex_controller\<lparr>m_robot_base_link := ''world''\<rparr>"
  have c: "init_robot_chain ex_externals ex_nh ?s = None"
    by (simp add: init_robot_chain_def init_robot_model_def init_robot_description_def
        init_base_link_def init_end_effector_link_def ex_params ex_externals_def)
  have m: "m_joint_handles ?s = []" "m_forward_kinematics_solver ?s = None"
    by (simp_all add: ex_controller_def)
  from init_throws_without_chain_or_joints [of ex_externals ex_nh ?s ex_hw] c m
  show ?thesis by auto
qed

text \<open>
  C4. The command writer follows the actuation mode of the instance. In position mode a
  call that returns has written \<open>positions[i]\<close> to handle \<open>i\<close> for every \<open>i\<close>, in the order
  of the handles, and in velocity mode \<open>velocities[i]\<close>; handles of distinct joints then
  hold exactly these commands. The mode is the template argument of the instance: no
  member function changes it.
\<close>

theorem writeJointControlCmds_by_mode:
  "(\<forall>s' hw'. hardware_interface_of s = PositionJointInterface \<and>
       writeJointControlCmds (s, hw) = Inr (s', hw') \<longrightarrow>
       length (m_joint_handles s) \<le> length (positions (m_simulated_joint_motion s)) \<and>
       hw' = foldl (\<lambda>h (j, v). setCommand h j v) hw
               (zip (m_joint_handles s) (positions (m_simulated_joint_motion s))) \<and>
       (distinct (m_joint_handles s) \<longrightarrow>
          (\<forall>i < length (m_joint_handles s).
             getCommand hw' (m_joint_handles s ! i) = positions (m_simulated_joint_motion s) ! i))) \<and>
   (\<forall>s' hw'. hardware_interface_of s = VelocityJointInterface \<and>
       writeJointControlCmds (s, hw) = Inr (s', hw') \<longrightarrow>
       length (m_joint_handles s) \<le> length (velocities (m_simulated_joint_motion s)) \<and>
       hw' = foldl (\<lambda>h (j, v). setCommand h j v) hw
               (zip (m_joint_handles s) (velocities (m_simulated_joint_motion s))) \<and>
       (distinct (m_joint_handles s) \<longrightarrow>
          (\<forall>i < length (m_joint_handles s).
             getCommand hw' (m_joint_handles s ! i) = velocities (m_simulated_joint_motion s) ! i))) \<and>
   (\<forall>s' hw'. writeJointControlCmds (s, hw) = Inr (s', hw') \<longrightarrow>
       hardware_interface_of s' = hardware_interface_of s) \<and>
   hardware_interface_of (fst (snd (init E hw nh s))) = hardware_interface_of s \<and>
   hardware_interface_of (fst (starting E time (s, hw))) = hardware_interface_of s \<and>
   hardware_interface_of (fst (stopping time (s, hw))) = hardware_interface_of s \<and>
   hardware_interface_of (fst (update time period (s, hw))) = hardware_interface_of s \<and>
   hardware_interface_of (fst (computeJointControlCmds E err period (s, hw))) = hardware_interface_of s"
proof -
  have pos: "length (m_joint_handles s) \<le> length (positions (m_simulated_joint_motion s)) \<and>
       hw' = foldl (\<lambda>h (j, v). setCommand h j v) hw
               (zip (m_joint_handles s) (positions (m_simulated_joint_motion s))) \<and>
       (distinct (m_joint_handles s) \<longrightarrow>
          (\<forall>i < length (m_joint_handles s).
             getCommand hw' (m_joint_handles s ! i) = positions (m_simulated_joint_motion s) ! i))"
    if "hardware_interface_of s = PositionJointInterface"
      and "writeJointControlCmds (s, hw) = Inr (s', hw')" for s' hw'
    using that
    by (auto simp: writeJointControlCmds_eq setCommands_from_0 commands_after_writing
        split: if_splits)
  have vel: "length (m_joint_handles s) \<le> length (velocities (m_simulated_joint_motion s)) \<and>
       hw' = foldl (\<lambda>h (j, v). setCommand h j v) hw
               (zip (m_joint_handles s) (velocities (m_simulated_joint_motion s))) \<and>
       (distinct (m_joint_handles s) \<longrightarrow>
          (\<forall>i < length (m_joint_handles s).
             getCommand hw' (m_joint_handles s ! i) = velocities (m_simulated_joint_motion s) ! i))"
    if "hardware_interface_of s = VelocityJointInterface"
      and "writeJointControlCmds (s, hw) = Inr (s', hw')" for s' hw'
    using that
    by (auto simp: writeJointControlCmds_eq setCommands_from_0 commands_after_writing
        split: if_splits)
  have wr: "hardware_interface_of s' = hardware_interface_of s"
    if "writeJointControlCmds (s, hw) = Inr (s', hw')" for s' hw'
    using that by (auto simp: writeJointControlCmds_eq split: sum.splits)
  have ini: "hardware_interface_of (fst (snd (init E hw nh s))) = hardware_interface_of s"
    by (simp add: init_unfold Let_def split: option.split prod.split list.split)
  have sta: "hardware_interface_of (fst (starting E time (s, hw))) = hardware_interface_of s"
    by (simp add: starting_def)
  have sto: "hardware_interface_of (fst (stopping time (s, hw))) = hardware_interface_of s"
    by (simp add: stopping_def)
  have upd: "hardware_interface_of (fst (update time period (s, hw))) = hardware_interface_of s"
    by (simp add: update_def)
  have com: "hardware_interface_of (fst (computeJointControlCmds E err period (s, hw)))
             = hardware_interface_of s"
    by (simp add: computeJointControlCmds_def Let_def split: prod.split)
  from pos vel wr ini sta sto upd com show ?thesis by blast
qed

theorem writeJointControlCmds_by_mode_witness:
  "writeJointControlCmds (ex_running, ex_hw) =
     Inr (ex_running, setCommand (setCommand ex_hw ''joint1'' 1) ''joint2'' 2) \<and>
   getCommand (setCommand (setCommand ex_hw ''joint1'' 1) ''joint2'' 2) ''joint1'' = 1 \<and>
   getCommand (setCommand (setCommand ex_hw ''joint1'' 1) ''joint2'' 2) ''joint2'' = 2 \<and>
   writeJointControlCmds (ex_running\<lparr>hardware_interface_of := VelocityJointInterface\<rparr>, ex_hw) =
     Inr (ex_running\<lparr>hardware_interface_of := VelocityJointInterface\<rparr>,
          setCommand (setCommand ex_hw ''joint1'' 3) ''joint2'' 4) \<and>
   hardware_interface_of (fst (snd (init ex_externals ex_hw ex_nh ex_running))) = PositionJointInterface"
proof -
  have p: "writeJointControlCmds (ex_running, ex_hw) =
     Inr (ex_running, setCommand (setCommand ex_hw ''joint1'' 1) ''joint2'' 2)"
    by (simp add: writeJointControlCmds_def ex_running_def setCommands_from.simps)
  have v: "writeJointControlCmds (ex_running\<lparr>hardware_interface_of := VelocityJointInterface\<rparr>, ex_hw) =
     Inr (ex_running\<lparr>hardware_interface_of := VelocityJointInterface\<rparr>,
          setCommand (setCommand ex_hw ''joint1'' 3) ''joint2'' 4)"
    by (simp add: writeJointControlCmds_def ex_running_def setCommands_from.simps)
  have m: "hardware_interface_of ex_running = PositionJointInterface"
    by (simp add: ex_running_def)
  have d: "distinct (m_joint_handles ex_running)" "length (m_joint_handles ex_running) = 2"
    "m_joint_handles ex_running ! 0 = ''joint1''" "m_joint_handles ex_running ! 1 = ''joint2''"
    "positions (m_simulated_joint_motion ex_running) ! 0 = 1"
    "positions (m_simulated_joint_motion ex_running) ! 1 = 2"
    by (simp_all add: ex_running_def)
  note t = writeJointControlCmds_by_mode [of ex_running ex_hw ex_externals ex_nh "0::nat" 0 "[]"]
  from t m p have "distinct (m_joint_handles ex_running) \<longrightarrow>
      (\<forall>i < length (m_joint_handles ex_running).
         getCommand (setCommand (setCommand ex_hw ''joint1'' 1) ''joint2'' 2)
           (m_joint_handles ex_running ! i)
         = positions (m_simulated_joint_motion ex_running) ! i)"
    by blast
  with d(1) have c: "\<And>i. i < length (m_joint_handles ex_running) \<Longrightarrow>
         getCommand (setCommand (setCommand ex_hw ''joint1'' 1) ''joint2'' 2)
           (m_joint_handles ex_running ! i)
         = positions (m_simulated_joint_motion ex_running) ! i"
    by blast
  from c [of 0] c [of 1] d
  have "getCommand (setCommand (setCommand ex_hw ''joint1'' 1) ''joint2'' 2) ''joint1'' = 1"
    "getCommand (setCommand (setCommand ex_hw ''joint1'' 1) ''joint2'' 2) ''joint2'' = 2"
    by simp_all
  moreover from t m
  have "hardware_interface_of (fst (snd (init ex_externals ex_hw ex_nh ex_running))) = PositionJointInterface"
    by simp
  ultimately show ?thesis using p v by simp
qed

text \<open>
  C10. The loop indexes the vector without a check. When the vector of the active mode
  has at least as many entries as there are handles, no index is out of range: the call
  returns, and it returns the controller as it was, the simulated joint motion included.
  The error branch is taken exactly when the vector is shorter than the list of handles.
\<close>

theorem writeJointControlCmds_in_bounds:
  "(length (m_joint_handles s) \<le>
      length (case hardware_interface_of s of
                PositionJointInterface \<Rightarrow> positions (m_simulated_joint_motion s)
              | VelocityJointInterface \<Rightarrow> velocities (m_simulated_joint_motion s)) \<longrightarrow>
      (\<exists>hw'. writeJointControlCmds (s, hw) = Inr (s, hw'))) \<and>
   (writeJointControlCmds (s, hw) = Inl OutOfRange \<longleftrightarrow>
      length (case hardware_interface_of s of
                PositionJointInterface \<Rightarrow> positions (m_simulated_joint_motion s)
              | VelocityJointInterface \<Rightarrow> velocities (m_simulated_joint_motion s))
        < length (m_joint_handles s)) \<and>
   (\<forall>s' hw'. writeJointControlCmds (s, hw) = Inr (s', hw') \<longrightarrow>
      m_simulated_joint_motion s' = m_simulated_joint_motion s)"
  by (auto simp: writeJointControlCmds_eq setCommands_from_0 split: if_splits)

theorem writeJointControlCmds_in_bounds_witness:
  "length (m_joint_handles ex_running) \<le> length (positions (m_simulated_joint_motion ex_running)) \<and>
   (\<exists>hw'. writeJointControlCmds (ex_running, ex_hw) = Inr (ex_running, hw')) \<and>
   writeJointControlCmds (ex_running, ex_hw) \<noteq> Inl OutOfRange \<and>
   writeJointControlCmds
     (ex_running\<lparr>m_simulated_joint_motion := \<lparr>positions = [1], velocities = [3]\<rparr>\<rparr>, ex_hw)
     = Inl OutOfRange"
  using writeJointControlCmds_in_bounds [of ex_running ex_hw]
    writeJointControlCmds_in_bounds
      [of "ex_running\<lparr>m_simulated_joint_motion := \<lparr>positions = [1], velocities = [3]\<rparr>\<rparr>" ex_hw]
  by (simp add: ex_running_def)

text \<open>
  C5. \<^verbatim>\<open>starting\<close> hands the joint handles, and through them the registers of the
  hardware, to \<^verbatim>\<open>setStartState\<close> of the forward dynamics solver and stores the solver it
  gets back. It does nothing else: the hardware and every other member of the controller
  are as they were.
\<close>

theorem starting_only_syncs_solver:
  "snd (starting E time (s, hw)) = hw \<and>
   m_forward_dynamics_solver (fst (starting E time (s, hw))) =
     fds_setStartState E (m_forward_dynamics_solver s) (m_joint_handles s) hw \<and>
   (fst (starting E time (s, hw)))\<lparr>m_forward_dynamics_solver := m_forward_dynamics_solver s\<rparr> = s \<and>
   starting E time (s, hw) =
     (s\<lparr>m_forward_dynamics_solver :=
          fds_setStartState E (m_forward_dynamics_solver s) (m_joint_handles s) hw\<rparr>, hw)"
  by (simp add: starting_def)

text \<open>
  C6. \<^verbatim>\<open>displayInBaseLink\<close> takes the joint positions for the frame transform from the
  forward dynamics solver (\<^verbatim>\<open>getPositions\<close>): the forward kinematics solver is asked
  for the frame at these positions and at no other, and the result does not depend on the
  joint handles or on the registers of the hardware.
\<close>

theorem displayInBaseLink_simulated_positions:
  "displayInBaseLink E wr frm (s\<lparr>m_joint_handles := hs\<rparr>, hw') = displayInBaseLink E wr frm (s, hw) \<and>
   (\<forall>fk. m_forward_kinematics_solver s = Some fk \<longrightarrow>
      displayInBaseLink E wr frm (s, hw) =
        Inr (map (wrench_at
               (frame_mul_wrench
                  (case fk_JntToCart E fk (fds_getPositions E (m_forward_dynamics_solver s)) frm of
                     None \<Rightarrow> frame_identity
                   | Some T \<Rightarrow> T)
                  (wrenchMsgToKDL (wrench_of wr)))) [0..<6])) \<and>
   (\<forall>fk g. m_forward_kinematics_solver s = Some fk \<and>
      g fk (fds_getPositions E (m_forward_dynamics_solver s)) frm =
        fk_JntToCart E fk (fds_getPositions E (m_forward_dynamics_solver s)) frm \<longrightarrow>
      displayInBaseLink (E\<lparr>fk_JntToCart := g\<rparr>) wr frm (s, hw) = displayInBaseLink E wr frm (s, hw))"
proof -
  have a: "displayInBaseLink E wr frm (s\<lparr>m_joint_handles := hs\<rparr>, hw')
           = displayInBaseLink E wr frm (s, hw)"
    by (simp add: displayInBaseLink_eq del: upt_Suc cong: option.case_cong)
  have b: "displayInBaseLink E wr frm (s, hw) =
        Inr (map (wrench_at
               (frame_mul_wrench
                  (case fk_JntToCart E fk (fds_getPositions E (m_forward_dynamics_solver s)) frm of
                     None \<Rightarrow> frame_identity
                   | Some T \<Rightarrow> T)
                  (wrenchMsgToKDL (wrench_of wr)))) [0..<6])"
    if "m_forward_kinematics_solver s = Some fk" for fk
    using that by (simp add: displayInBaseLink_eq del: upt_Suc)
  have c: "displayInBaseLink (E\<lparr>fk_JntToCart := g\<rparr>) wr frm (s, hw)
           = displayInBaseLink E wr frm (s, hw)"
    if "m_forward_kinematics_solver s = Some fk"
      and "g fk (fds_getPositions E (m_forward_dynamics_solver s)) frm =
           fk_JntToCart E fk (fds_getPositions E (m_forward_dynamics_solver s)) frm" for fk g
    using that by (simp add: displayInBaseLink_eq del: upt_Suc)
  from a b c show ?thesis by blast
qed

theorem displayInBaseLink_simulated_positions_witness:
  "m_forward_kinematics_solver ex_running = Some [''root'', ''link1'', ''tool0''] \<and>
   fds_getPositions ex_externals (m_forward_dynamics_solver ex_running) = [1, 2] \<and>
   map (getPosition ex_hw) (m_joint_handles ex_running) = [5, 5] \<and>
   displayInBaseLink ex_externals ex_wrench ''tool0'' (ex_running, ex_hw) = Inr [- 2, 1, 3, - 5, 1, 7] \<and>
   displayInBaseLink ex_externals ex_wrench ''tool0''
     (ex_running\<lparr>m_joint_handles := [''joint2'']\<rparr>, setCommand ex_hw ''joint1'' 9)
     = Inr [- 2, 1, 3, - 5, 1, 7]"
proof -
  have k: "m_forward_kinematics_solver ex_running = Some [''root'', ''link1'', ''tool0'']"
    by (simp add: ex_running_def)
  have q: "fds_getPositions ex_externals (m_forward_dynamics_solver ex_running) = [1, 2]"
    by (simp add: ex_running_def ex_externals_def)
  have r: "map (getPosition ex_hw) (m_joint_handles ex_running) = [5, 5]"
    by (simp add: ex_running_def ex_hw_def getPosition_def)
  note t = displayInBaseLink_simulated_positions
    [where E = ex_externals and wr = ex_wrench and frm = "''tool0''" and s = ex_running
       and hs = "[''joint2'']" and hw' = "setCommand ex_hw ''joint1'' 9" and hw = ex_hw]
  from t k have
    "displayInBaseLink ex_externals ex_wrench ''tool0'' (ex_running, ex_hw) =
       Inr (map (wrench_at
               (frame_mul_wrench
                  (case fk_JntToCart ex_externals [''root'', ''link1'', ''tool0'']
                          (fds_getPositions ex_externals (m_forward_dynamics_solver ex_running)) ''tool0'' of
                     None \<Rightarrow> frame_identity
                   | Some T \<Rightarrow> T)
                  (wrenchMsgToKDL (wrench_of ex_wrench)))) [0..<6])"
    by blast
  then have v: "displayInBaseLink ex_externals ex_wrench ''tool0'' (ex_running, ex_hw)
                = Inr [- 2, 1, 3, - 5, 1, 7]"
    by (simp add: q upt_6 del: upt_Suc)
       (simp add: ex_externals_def ex_wrench_def wrenchMsgToKDL_def)
  from t have "displayInBaseLink ex_externals ex_wrench ''tool0''
     (ex_running\<lparr>m_joint_handles := [''joint2'']\<rparr>, setCommand ex_hw ''joint1'' 9)
     = displayInBaseLink ex_externals ex_wrench ''tool0'' (ex_running, ex_hw)"
    by blast
  with v k q r show ?thesis by simp
qed

text \<open>
  C7. When the forward kinematics solver gives the frame \<open>(R, p)\<close> for the frame name,
  \<^verbatim>\<open>displayInBaseLink\<close> returns, for a message with force \<open>f\<close> and torque \<open>t\<close>, the six
  entries of \<open>f' = R f\<close> and \<open>t' = R t + p \<times> f'\<close>; when \<open>p\<close> is zero the torque
  entries are those of \<open>R t\<close>.
\<close>

theorem displayInBaseLink_wrench_law:
  assumes "m_forward_kinematics_solver s = Some fk"
    and "fk_JntToCart E fk (fds_getPositions E (m_forward_dynamics_solver s)) frm = Some (R, p)"
  shows "displayInBaseLink E wr frm (s, hw) =
           Inr (vec_entries (rot_mul R (msg_force (wrench_of wr))) @
                vec_entries (vec_add (rot_mul R (msg_torque (wrench_of wr)))
                               (cross p (rot_mul R (msg_force (wrench_of wr)))))) \<and>
         (p = (0, 0, 0) \<longrightarrow>
            displayInBaseLink E wr frm (s, hw) =
              Inr (vec_entries (rot_mul R (msg_force (wrench_of wr))) @
                   vec_entries (rot_mul R (msg_torque (wrench_of wr)))))"
  using displayInBaseLink_frame [OF assms, of wr hw]
  by (simp add: cross_zero vec_add_zero)

theorem displayInBaseLink_wrench_law_witness:
  "m_forward_kinematics_solver (ex_running\<lparr>m_forward_dynamics_solver := [0, 2]\<rparr>)
     = Some [''root'', ''link1'', ''tool0''] \<and>
   fk_JntToCart ex_externals [''root'', ''link1'', ''tool0'']
     (fds_getPositions ex_externals
        (m_forward_dynamics_solver (ex_running\<lparr>m_forward_dynamics_solver := [0, 2]\<rparr>))) ''tool0''
     = Some (((0, - 1, 0), (1, 0, 0), (0, 0, 1)), (0, 0, 0)) \<and>
   displayInBaseLink ex_externals ex_wrench ''tool0''
     (ex_running\<lparr>m_forward_dynamics_solver := [0, 2]\<rparr>, ex_hw) = Inr [- 2, 1, 3, - 5, 4, 6]"
proof -
  let ?s = "ex_running\<lparr>m_forward_dynamics_solver := [0, 2]\<rparr>"
  have k: "m_forward_kinematics_solver ?s = Some [''root'', ''link1'', ''tool0'']"
    by (simp add: ex_running_def)
  have j: "fk_JntToCart ex_externals [''root'', ''link1'', ''tool0'']
             (fds_getPositions ex_externals (m_forward_dynamics_solver ?s)) ''tool0''
           = Some (((0, - 1, 0), (1, 0, 0), (0, 0, 1)), (0, 0, 0))"
    by (simp add: ex_externals_def)
  from displayInBaseLink_wrench_law [OF k j, of ex_wrench ex_hw]
  have "displayInBaseLink ex_externals ex_wrench ''tool0'' (?s, ex_hw) = Inr [- 2, 1, 3, - 5, 4, 6]"
    by (simp add: ex_wrench_def)
  with k j show ?thesis by simp
qed

text \<open>
  C8. Over exact arithmetic the wrench transform round-trips: for a frame \<open>T = (R, p)\<close>
  with a rotation matrix \<open>R\<close>, transforming a wrench with \<open>T\<close> and then with the inverse
  frame gives the wrench back, and so does the inverse first and \<open>T\<close> second. In
  particular the six entries \<^verbatim>\<open>displayInBaseLink\<close> returns, transformed with the inverse
  of the frame it used, are the force and the torque of the message.
\<close>

theorem wrench_transform_round_trip:
  assumes "is_rotation R"
  shows "frame_mul_wrench (frame_inverse (R, p)) (frame_mul_wrench (R, p) w) = w \<and>
         frame_mul_wrench (R, p) (frame_mul_wrench (frame_inverse (R, p)) w) = w \<and>
         (\<forall>fk v. m_forward_kinematics_solver s = Some fk \<and>
            fk_JntToCart E fk (fds_getPositions E (m_forward_dynamics_solver s)) frm = Some (R, p) \<and>
            displayInBaseLink E wr frm (s, hw) = Inr v \<longrightarrow>
            frame_mul_wrench (frame_inverse (R, p))
              ((v ! 0, v ! 1, v ! 2), (v ! 3, v ! 4, v ! 5))
              = (msg_force (wrench_of wr), msg_torque (wrench_of wr)))"
proof -
  obtain f t where w: "w = (f, t)" by (cases w)
  have a: "frame_mul_wrench (frame_inverse (R, p)) (frame_mul_wrench (R, p) w) = w"
    unfolding w by (rule wrench_there_and_back [OF assms])
  have b: "frame_mul_wrench (R, p) (frame_mul_wrench (frame_inverse (R, p)) w) = w"
    unfolding w by (rule wrench_back_and_there [OF assms])
  have c: "frame_mul_wrench (frame_inverse (R, p))
              ((v ! 0, v ! 1, v ! 2), (v ! 3, v ! 4, v ! 5))
              = (msg_force (wrench_of wr), msg_torque (wrench_of wr))"
    if k: "m_forward_kinematics_solver s = Some fk"
      and j: "fk_JntToCart E fk (fds_getPositions E (m_forward_dynamics_solver s)) frm = Some (R, p)"
      and d: "displayInBaseLink E wr frm (s, hw) = Inr v" for fk v
  proof -
    let ?f = "msg_force (wrench_of wr)" and ?t = "msg_torque (wrench_of wr)"
    obtain x1 x2 x3 where x: "rot_mul R ?f = (x1, x2, x3)"
      by (cases "rot_mul R ?f" rule: prod_cases3)
    obtain y1 y2 y3 where y: "vec_add (rot_mul R ?t) (cross p (x1, x2, x3)) = (y1, y2, y3)"
      by (cases "vec_add (rot_mul R ?t) (cross p (x1, x2, x3))" rule: prod_cases3)
    from displayInBaseLink_frame [OF k j, of wr hw] d
    have v: "v = [x1, x2, x3, y1, y2, y3]"
      by (simp add: x y)
    have "((v ! 0, v ! 1, v ! 2), (v ! 3, v ! 4, v ! 5)) = frame_mul_wrench (R, p) (?f, ?t)"
      using x y by (simp add: v Let_def)
    then show ?thesis
      by (simp only: wrench_there_and_back [OF assms])
  qed
  from a b c show ?thesis by blast
qed

theorem wrench_transform_round_trip_witness:
  "is_rotation ((0, - 1, 0), (1, 0, 0), (0, 0, 1)) \<and>
   frame_mul_wrench (((0, - 1, 0), (1, 0, 0), (0, 0, 1)), (1, 0, 0)) ((1, 2, 3), (4, 5, 6))
     = ((- 2, 1, 3), (- 5, 1, 7)) \<and>
   frame_mul_wrench (frame_inverse (((0, - 1, 0), (1, 0, 0), (0, 0, 1)), (1, 0, 0)))
     ((- 2, 1, 3), (- 5, 1, 7)) = ((1, 2, 3), (4, 5, 6))"
proof -
  have r: "is_rotation ((0, - 1, 0), (1, 0, 0), (0, 0, 1))"
    by simp
  have m: "frame_mul_wrench (((0, - 1, 0), (1, 0, 0), (0, 0, 1)), (1, 0, 0)) ((1, 2, 3), (4, 5, 6))
           = ((- 2, 1, 3), (- 5, 1, 7))"
    by (simp add: Let_def)
  from wrench_transform_round_trip [OF r, of "(1, 0, 0)" "((1, 2, 3), (4, 5, 6))"]
  have "frame_mul_wrench (frame_inverse (((0, - 1, 0), (1, 0, 0), (0, 0, 1)), (1, 0, 0)))
          (frame_mul_wrench (((0, - 1, 0), (1, 0, 0), (0, 0, 1)), (1, 0, 0)) ((1, 2, 3), (4, 5, 6)))
        = ((1, 2, 3), (4, 5, 6))"
    by blast
  with r m show ?thesis by simp
qed

text \<open>
  C9. When the key \<open>robot_base_link\<close> or \<open>end_effector_link\<close> is missing, \<^verbatim>\<open>init\<close> logs
  the failure, leaves the member as it was and goes on with the rest of the
  initialization: nothing is thrown for the missing key. With the frame names the members
  hold it builds the tree and the chain, reads the joint names, acquires the handles and
  sets up the two solvers and the PID controller; an exception it throws is the one of
  the later step that fails, and it returns \<^verbatim>\<open>true\<close> exactly when all of them succeed.
\<close>

theorem init_continues_without_frame_names:
  assumes "getParam_string nh ''robot_base_link'' = None \<or>
           getParam_string nh ''end_effector_link'' = None"
  shows "(getParam_string nh ''robot_base_link'' = None \<longrightarrow>
            msg_param nh ''/robot_base_link'' \<in> set (snd (snd (init E hw nh s))) \<and>
            m_robot_base_link (fst (snd (init E hw nh s))) = m_robot_base_link s \<and>
            init_base_link nh s = m_robot_base_link s) \<and>
         (getParam_string nh ''end_effector_link'' = None \<longrightarrow>
            msg_param nh ''/end_effector_link'' \<in> set (snd (snd (init E hw nh s))) \<and>
            m_end_effector_link (fst (snd (init E hw nh s))) = m_end_effector_link s \<and>
            init_end_effector_link nh s = m_end_effector_link s) \<and>
         (fst (init E hw nh s) = Inr True \<longleftrightarrow>
            (\<exists>chain js hs name0 rest.
               init_robot_chain E nh s = Some chain \<and>
               getParam_strings nh ''joints'' = Some js \<and>
               getHandles_from 0 js hw (m_joint_handles s) = (None, hs) \<and>
               chain_segment_names E chain = name0 # rest)) \<and>
         (\<forall>chain js hs name0 rest. init_robot_chain E nh s = Some chain \<and>
            getParam_strings nh ''joints'' = Some js \<and>
            getHandles_from 0 js hw (m_joint_handles s) = (None, hs) \<and>
            chain_segment_names E chain = name0 # rest \<longrightarrow>
            init E hw nh s =
              (Inr True,
               s\<lparr>m_robot_base_link := init_base_link nh s,
                 m_end_effector_link := init_end_effector_link nh s,
                 m_joint_names := js, m_joint_handles := hs,
                 m_forward_dynamics_solver := fds_init E (m_forward_dynamics_solver s) chain,
                 m_forward_kinematics_solver :=
                   Some (treeFkSolverPos_recursive E (tree_addChain E (kdl_Tree E) chain name0)),
                 m_spatial_controller := pid_init E (m_spatial_controller s) nh\<rparr>,
               init_messages E nh)) \<and>
         (treeFromUrdfModel E (init_robot_model E nh) = None \<longrightarrow>
            init E hw nh s =
              (Inl (RuntimeError msg_tree),
               s\<lparr>m_robot_base_link := init_base_link nh s,
                 m_end_effector_link := init_end_effector_link nh s\<rparr>,
               init_messages E nh @ [msg_tree])) \<and>
         (\<forall>tree. treeFromUrdfModel E (init_robot_model E nh) = Some tree \<and>
            tree_getChain E tree (init_base_link nh s) (init_end_effector_link nh s) = None \<longrightarrow>
            init E hw nh s =
              (Inl (RuntimeError msg_chain),
               s\<lparr>m_robot_base_link := init_base_link nh s,
                 m_end_effector_link := init_end_effector_link nh s\<rparr>,
               init_messages E nh @ [msg_chain])) \<and>
         (\<forall>chain. init_robot_chain E nh s = Some chain \<and> getParam_strings nh ''joints'' = None \<longrightarrow>
            init E hw nh s =
              (Inl (RuntimeError (msg_param nh ''/joints'')),
               s\<lparr>m_robot_base_link := init_base_link nh s,
                 m_end_effector_link := init_end_effector_link nh s\<rparr>,
               init_messages E nh @ [msg_param nh ''/joints''])) \<and>
         (\<forall>chain js e hs. init_robot_chain E nh s = Some chain \<and>
            getParam_strings nh ''joints'' = Some js \<and>
            getHandles_from 0 js hw (m_joint_handles s) = (Some e, hs) \<longrightarrow>
            init E hw nh s =
              (Inl e,
               s\<lparr>m_robot_base_link := init_base_link nh s,
                 m_end_effector_link := init_end_effector_link nh s,
                 m_joint_names := js, m_joint_handles := hs\<rparr>,
               init_messages E nh)) \<and>
         (\<forall>chain js hs. init_robot_chain E nh s = Some chain \<and>
            getParam_strings nh ''joints'' = Some js \<and>
            getHandles_from 0 js hw (m_joint_handles s) = (None, hs) \<and>
            chain_segment_names E chain = [] \<longrightarrow>
            init E hw nh s =
              (Inl OutOfRange,
               s\<lparr>m_robot_base_link := init_base_link nh s,
                 m_end_effector_link := init_end_effector_link nh s,
                 m_joint_names := js, m_joint_handles := hs,
                 m_forward_dynamics_solver := fds_init E (m_forward_dynamics_solver s) chain\<rparr>,
               init_messages E nh))"
proof -
  have b: "init_base_link nh s = m_robot_base_link s"
    if "getParam_string nh ''robot_base_link'' = None"
    using that by (simp add: init_base_link_def)
  have e: "init_end_effector_link nh s = m_end_effector_link s"
    if "getParam_string nh ''end_effector_link'' = None"
    using that by (simp add: init_end_effector_link_def)
  show ?thesis
    apply (intro conjI allI impI)
               apply (erule init_base_message [THEN conjunct1])
              apply (erule init_base_message [THEN conjunct2])
             apply (erule b)
            apply (erule init_end_effector_message [THEN conjunct1])
           apply (erule init_end_effector_message [THEN conjunct2])
          apply (erule e)
         apply (rule init_returns_true_iff)
        apply (elim conjE, erule (3) init_case_success)
       apply (erule init_case_tree)
      apply (elim conjE, erule (1) init_case_chain)
     apply (elim conjE, erule (1) init_without_joints)
    apply (elim conjE, erule (2) init_case_handles)
    apply (elim conjE, erule (3) init_case_segments)
    done
qed

theorem init_continues_without_frame_names_witness:
  "getParam_string ex_nh ''robot_base_link'' = None \<and>
   init ex_unnamed_base ex_hw ex_nh ex_constructed =
     (Inr True,
      ex_constructed
        \<lparr>m_end_effector_link := ''tool0'',
         m_joint_names := [''joint1'', ''joint2''], m_joint_handles := [''joint1'', ''joint2''],
         m_forward_kinematics_solver := Some [''root'', ''link1'', ''tool0'']\<rparr>,
      [''Failed to load /my_controller/robot_base_link from parameter server'']) \<and>
   m_robot_base_link (fst (snd (init ex_unnamed_base ex_hw ex_nh ex_constructed)))
     = m_robot_base_link ex_constructed \<and>
   init ex_externals ex_hw ex_nh ex_constructed =
     (Inl (RuntimeError msg_chain),
      ex_constructed\<lparr>m_end_effector_link := ''tool0''\<rparr>,
      [''Failed to load /my_controller/robot_base_link from parameter server'', msg_chain])"
proof -
  have g: "getHandles_from 0 [''joint1'', ''joint2''] ex_hw (m_joint_handles ex_constructed)
           = (None, [''joint1'', ''joint2''])"
    by (simp add: ex_unnamed_parts ex_getHandles)
  have h: "getParam_string ex_nh ''robot_base_link'' = None \<or>
           getParam_string ex_nh ''end_effector_link'' = None"
    by (simp add: ex_params)
  note t = init_continues_without_frame_names [OF h, of ex_unnamed_base ex_hw ex_constructed]
  from t ex_unnamed_chain ex_params(4) g ex_unnamed_parts(1)
  have "init ex_unnamed_base ex_hw ex_nh ex_constructed =
     (Inr True,
      ex_constructed
        \<lparr>m_robot_base_link := init_base_link ex_nh ex_constructed,
         m_end_effector_link := init_end_effector_link ex_nh ex_constructed,
         m_joint_names := [''joint1'', ''joint2''], m_joint_handles := [''joint1'', ''joint2''],
         m_forward_dynamics_solver :=
           fds_init ex_unnamed_base (m_forward_dynamics_solver ex_constructed) [''link1'', ''tool0''],
         m_forward_kinematics_solver :=
           Some (treeFkSolverPos_recursive ex_unnamed_base
                   (tree_addChain ex_unnamed_base (kdl_Tree ex_unnamed_base) [''link1'', ''tool0'']
                      ''link1'')),
         m_spatial_controller := pid_init ex_unnamed_base (m_spatial_controller ex_constructed) ex_nh\<rparr>,
      init_messages ex_unnamed_base ex_nh)"
    by blast
  then have a: "init ex_unnamed_base ex_hw ex_nh ex_constructed =
     (Inr True,
      ex_constructed
        \<lparr>m_end_effector_link := ''tool0'',
         m_joint_names := [''joint1'', ''joint2''], m_joint_handles := [''joint1'', ''joint2''],
         m_forward_kinematics_solver := Some [''root'', ''link1'', ''tool0'']\<rparr>,
      [''Failed to load /my_controller/robot_base_link from parameter server''])"
    by (simp only: ex_unnamed_parts ex_constructed_frames ex_unnamed_messages ex_initialised)
  from t ex_params(2)
  have m: "m_robot_base_link (fst (snd (init ex_unnamed_base ex_hw ex_nh ex_constructed)))
           = m_robot_base_link ex_constructed"
    by blast
  have r: "ex_constructed\<lparr>m_robot_base_link := init_base_link ex_nh ex_constructed,
             m_end_effector_link := init_end_effector_link ex_nh ex_constructed\<rparr>
           = ex_constructed\<lparr>m_end_effector_link := ''tool0''\<rparr>"
    by (simp add: ex_constructed_frames) (simp add: ex_constructed_def)
  from init_continues_without_frame_names [OF h, of ex_externals ex_hw ex_constructed]
    ex_tree ex_no_chain
  have "init ex_externals ex_hw ex_nh ex_constructed =
     (Inl (RuntimeError msg_chain),
      ex_constructed\<lparr>m_robot_base_link := init_base_link ex_nh ex_constructed,
        m_end_effector_link := init_end_effector_link ex_nh ex_constructed\<rparr>,
      init_messages ex_externals ex_nh @ [msg_chain])"
    by blast
  then have b: "init ex_externals ex_hw ex_nh ex_constructed =
     (Inl (RuntimeError msg_chain),
      ex_constructed\<lparr>m_end_effector_link := ''tool0''\<rparr>,
      [''Failed to load /my_controller/robot_base_link from parameter server'', msg_chain])"
    by (simp only: r ex_messages) simp
  from ex_params(2) a m b show ?thesis by (intro conjI)
qed

end
